theory Spec2Isabelle
  imports Main
begin

section \<open>JavaScript values of snapbackSM.js\<close>

text \<open>
  Wallets and endpoints are strings that may be absent: a user record of an incomplete
  replica set has no \<open>secondary2\<close>, an array read past its end gives \<open>undefined\<close>.
  \<open>None\<close> is \<open>undefined\<close>. A clock value read from an object or from a JSON response is
  a number, \<open>null\<close>, or \<open>undefined\<close> when the property is missing.
\<close>

type_synonym jsstr = "string option"

datatype clock = Undefined | Null | Number int

datatype error = Error string | TypeError string

definition truthy :: "jsstr \<Rightarrow> bool" where
  \<comment> \<open>\<open>Boolean(v)\<close>: undefined and the empty string are falsy\<close>
  "truthy v = (case v of None \<Rightarrow> False | Some s \<Rightarrow> s \<noteq> [])"

text \<open>The conversion that the comparisons and \<open>+\<close> apply to an operand: undefined becomes
  NaN (here \<open>None\<close>), null becomes 0.\<close>

fun toNumber :: "clock \<Rightarrow> int option" where
  "toNumber Undefined = None"
| "toNumber Null = Some 0"
| "toNumber (Number n) = Some n"

definition js_not :: "clock \<Rightarrow> bool" where
  \<comment> \<open>\<open>!v\<close>: true for undefined, for null and for 0\<close>
  "js_not v = (case v of Undefined \<Rightarrow> True | Null \<Rightarrow> True | Number n \<Rightarrow> n = 0)"

definition js_gt :: "clock \<Rightarrow> clock \<Rightarrow> bool" where
  \<comment> \<open>\<open>a > b\<close>: false as soon as one side converts to NaN\<close>
  "js_gt a b =
     (case toNumber a of None \<Rightarrow> False | Some x \<Rightarrow> (case toNumber b of None \<Rightarrow> False | Some y \<Rightarrow> y < x))"

definition js_ge :: "clock \<Rightarrow> clock \<Rightarrow> bool" where
  "js_ge a b =
     (case toNumber a of None \<Rightarrow> False | Some x \<Rightarrow> (case toNumber b of None \<Rightarrow> False | Some y \<Rightarrow> y \<le> x))"

definition js_lt :: "clock \<Rightarrow> clock \<Rightarrow> bool" where
  "js_lt a b =
     (case toNumber a of None \<Rightarrow> False | Some x \<Rightarrow> (case toNumber b of None \<Rightarrow> False | Some y \<Rightarrow> x < y))"

definition js_plus :: "clock \<Rightarrow> int \<Rightarrow> clock" where
  \<comment> \<open>\<open>a + n\<close> for a number \<open>n\<close>. undefined + n is NaN, written \<open>Undefined\<close> here: the sum
      is only compared, and both compare false with everything\<close>
  "js_plus a n = (case toNumber a of None \<Rightarrow> Undefined | Some x \<Rightarrow> Number (x + n))"

definition js_index :: "'a option list \<Rightarrow> nat \<Rightarrow> 'a option" where
  \<comment> \<open>\<open>xs[i]\<close>: undefined past the end\<close>
  "js_index xs i = (if i < length xs then xs ! i else None)"

definition js_key :: "jsstr \<Rightarrow> string" where
  \<comment> \<open>a value used as a property name is converted to a string\<close>
  "js_key v = (case v of None \<Rightarrow> ''undefined'' | Some s \<Rightarrow> s)"

definition js_rem :: "int \<Rightarrow> int \<Rightarrow> int" where
  \<comment> \<open>\<open>a % b\<close> on integers: the remainder takes the sign of the dividend\<close>
  "js_rem a b = sgn a * (\<bar>a\<bar> mod \<bar>b\<bar>)"

section \<open>Constants\<close>

definition MaxSyncMonitoringDurationInMs :: nat where
  "MaxSyncMonitoringDurationInMs = 360000"

definition SyncMonitoringRetryDelayMs :: nat where
  "SyncMonitoringRetryDelayMs = 15000"

definition ModuloBase :: nat where
  "ModuloBase = 24"

datatype SyncType = Recurring | Manual

section \<open>Sync jobs and the two Bull queues\<close>

text \<open>
  The axios request template a job carries (\<open>syncRequestParameters\<close>, with the fields of
  its \<open>data\<close> object flattened). The job's \<open>startTime\<close> stamp is left out: nothing in the
  file reads it.
\<close>

record syncRequestParameters =
  baseURL :: jsstr
  url :: string
  "method" :: string
  data_wallet :: "jsstr list"
  data_creator_node_endpoint :: jsstr
  data_sync_type :: SyncType
  data_immediate :: bool

record job =
  jobId :: nat
  jobData :: syncRequestParameters

text \<open>
  Bull is a library: a queue is modelled as its list of waiting jobs (first in, first
  out), its active jobs and the counter that numbers jobs. Finished jobs are dropped
  (\<open>removeOnComplete\<close>, \<open>removeOnFail\<close>).
\<close>

record bullQueue =
  waiting :: "job list"
  active :: "job list"
  jobCounter :: nat

definition queue_add :: "bullQueue \<Rightarrow> syncRequestParameters \<Rightarrow> job \<times> bullQueue" where
  "queue_add q ps =
     (let j = \<lparr>jobId = jobCounter q + 1, jobData = ps\<rparr>
      in (j, q\<lparr>waiting := waiting q @ [j], jobCounter := jobCounter q + 1\<rparr>))"

definition queue_take :: "bullQueue \<Rightarrow> (job \<times> bullQueue) option" where
  \<comment> \<open>a worker moves the oldest waiting job to active\<close>
  "queue_take q =
     (case waiting q of
        [] \<Rightarrow> None
      | j # js \<Rightarrow> Some (j, q\<lparr>waiting := js, active := active q @ [j]\<rparr>))"

definition queue_done :: "bullQueue \<Rightarrow> job \<Rightarrow> bullQueue" where
  "queue_done q j = q\<lparr>active := remove1 j (active q)\<rparr>"

section \<open>The sync de-duplicator\<close>

text \<open>
  Modelled from the spec: the class \<open>SyncDeDuplicator\<close> (file snapbackDeDuplicator.js) is
  required by snapbackSM.js but is not among the sources. The spec (4.2) describes it as
  a mapping from fingerprint \<open>(kind, user_wallet, target_endpoint)\<close> to the pending job
  handle with three operations: \<open>try_record\<close> inserts if absent, \<open>lookup\<close> returns the
  existing handle or nothing, \<open>remove\<close> erases. They are named here as snapbackSM.js
  calls them.
\<close>

type_synonym fingerprint = "SyncType \<times> jsstr \<times> jsstr"
type_synonym syncDeDuplicator = "fingerprint \<rightharpoonup> job"

definition getDuplicateSyncJobInfo ::
  "syncDeDuplicator \<Rightarrow> SyncType \<Rightarrow> jsstr \<Rightarrow> jsstr \<Rightarrow> job option" where
  "getDuplicateSyncJobInfo d ty w s = d (ty, w, s)"

definition recordSync ::
  "syncDeDuplicator \<Rightarrow> SyncType \<Rightarrow> jsstr \<Rightarrow> jsstr \<Rightarrow> job \<Rightarrow> syncDeDuplicator" where
  "recordSync d ty w s j = (case d (ty, w, s) of None \<Rightarrow> d((ty, w, s) \<mapsto> j) | Some _ \<Rightarrow> d)"

definition removeSync ::
  "syncDeDuplicator \<Rightarrow> SyncType \<Rightarrow> jsstr \<Rightarrow> jsstr \<Rightarrow> syncDeDuplicator" where
  "removeSync d ty w s = d((ty, w, s) := None)"

section \<open>The state machine object and its collaborators\<close>

datatype logEntry =
    LogEnqueueSyncFailure SyncType jsstr jsstr
  | LogIssueUpdateReplicaSetOp int jsstr "jsstr list"
  | LogUpdatingReplicaSet int jsstr "jsstr list" "jsstr list"
  | LogDecisionTree "string list"
  | LogProcessSync jsstr jsstr clock SyncType nat
  | LogEndProcessSync nat
  | LogQueueProcessingError SyncType error
  | LogSecondaryClock nat clock
  | LogRangeExceeded nat clock
  | LogSyncCompleted nat clock
  | LogMonitorError nat error

text \<open>
  The fields of the \<open>SnapbackSM\<close> object that the operations below change, together
  with the two pieces of the outside world they write to: the replica sets written to the
  registry (\<open>UserReplicaSetManagerClient.updateReplicaSet\<close>) and the log.
\<close>

record snapbackSM =
  currentModuloSlice :: nat
  manualSyncQueue :: bullQueue
  recurringSyncQueue :: bullQueue
  syncDeDuplicator :: syncDeDuplicator
  registryWrites :: "(int \<times> int option \<times> int option list) list"
  logged :: "logEntry list"

record nodeUser =
  user_id :: int
  wallet :: jsstr
  primary :: jsstr
  secondary1 :: jsstr
  secondary2 :: jsstr

record randomReplicaSet =
  rs_primary :: jsstr
  rs_secondaries :: "jsstr list"

text \<open>
  What the object is configured with and what its collaborators answer: the peer set
  manager (\<open>getNodeUsers\<close>, \<open>getUnhealthyPeers\<close>, whose set is kept as a list), the
  secondaries' batch clock route, the database of this node (\<open>cnodeUserFindAll\<close>), the
  queue broker, the libs (\<open>autoSelectCreatorNodes\<close>, \<open>getClockValuesFromReplicaSet\<close>,
  \<open>updateReplicaSet\<close>) and the secondaries' sync and clock routes. \<open>endpointToSPIdMap\<close>
  is the object \<open>init\<close> builds from the service provider list. Each call that
  can throw returns a sum (\<open>Inl\<close> the error). \<open>clockStatus\<close> is the GET of
  \<open>/users/clock_status/wallet\<close> issued at a time in ms: the clock value read from the
  response (or the error of the request or of reading the response), and the time the
  request and the delay after it took beyond \<open>SyncMonitoringRetryDelayMs\<close>.
\<close>

record collaborators =
  creatorNodeEndpoint :: jsstr
  maxExportClockValueRange :: int
  endpointToSPIdMap :: "jsstr \<Rightarrow> int option"
  getNodeUsers :: "error + nodeUser list"
  getUnhealthyPeers :: "nodeUser list \<Rightarrow> error + jsstr list"
  batchClockStatus :: "string \<Rightarrow> jsstr list \<Rightarrow> error + (jsstr \<times> clock) list"
  cnodeUserFindAll :: "jsstr list \<Rightarrow> error + (jsstr \<times> clock) list"
  queueAddError :: "syncRequestParameters \<Rightarrow> error option"
  autoSelectCreatorNodes :: "jsstr list \<Rightarrow> error + randomReplicaSet"
  getClockValuesFromReplicaSet :: "error + (jsstr \<times> clock) list"
  updateReplicaSetError :: "int \<Rightarrow> int option \<Rightarrow> int option list \<Rightarrow> error option"
  syncRequest :: "syncRequestParameters \<Rightarrow> error option"
  clockStatus :: "jsstr \<Rightarrow> jsstr \<Rightarrow> nat \<Rightarrow> (error + clock) \<times> nat"

text \<open>Sequencing of calls that change the state and may throw.\<close>

type_synonym 'a io = "snapbackSM \<Rightarrow> (error + 'a) \<times> snapbackSM"

definition andThen :: "'a io \<Rightarrow> ('a \<Rightarrow> 'b io) \<Rightarrow> 'b io" where
  "andThen m f st = (case m st of (Inl e, st') \<Rightarrow> (Inl e, st') | (Inr x, st') \<Rightarrow> f x st')"

definition log :: "logEntry \<Rightarrow> snapbackSM \<Rightarrow> snapbackSM" where
  "log l st = st\<lparr>logged := logged st @ [l]\<rparr>"

section \<open>getUserPrimaryClockValues\<close>

definition getUserPrimaryClockValues ::
  "collaborators \<Rightarrow> jsstr list \<Rightarrow> error + (string \<Rightarrow> clock)" where
  \<comment> \<open>the rows found are folded into an object, wallet to clock; a later row overwrites\<close>
  "getUserPrimaryClockValues env wallets =
     (case cnodeUserFindAll env wallets of
        Inl e \<Rightarrow> Inl e
      | Inr cnodeUsers \<Rightarrow> Inr (fold (\<lambda>(w, c) acc. acc(js_key w := c)) cnodeUsers (\<lambda>_. Undefined)))"

section \<open>enqueueSync\<close>

record enqueueSyncParams =
  userWallet :: jsstr
  primaryEndpoint :: jsstr
  secondaryEndpoint :: jsstr
  syncType :: SyncType
  immediate :: bool

definition syncRequestParametersOf :: "enqueueSyncParams \<Rightarrow> syncRequestParameters" where
  "syncRequestParametersOf a =
     \<lparr>baseURL = secondaryEndpoint a, url = ''/sync'', method = ''post'',
      data_wallet = [userWallet a], data_creator_node_endpoint = primaryEndpoint a,
      data_sync_type = syncType a, data_immediate = immediate a\<rparr>"

text \<open>
  \<open>enqueueSync\<close> is an async function with one suspension point, \<open>await queue.add\<close>.
  What runs before it (the duplicate check and the call of \<open>queue.add\<close>) and what runs
  after it (\<open>recordSync\<close>) are separate steps: other callbacks of the process may run in
  between. \<open>enqueueSync_begin\<close> is the first step; it says how the call goes on: it has
  returned the duplicate, it waits for the job it added, or \<open>queue.add\<close> rejects. The job
  is counted as waiting from the call of \<open>queue.add\<close> on.
\<close>

datatype enqueueProgress =
    Returned job
  | Awaiting job
  | Rejected error

definition enqueueSync_begin ::
  "collaborators \<Rightarrow> enqueueSyncParams \<Rightarrow> snapbackSM \<Rightarrow> enqueueProgress \<times> snapbackSM" where
  "enqueueSync_begin env a st =
     (case getDuplicateSyncJobInfo (syncDeDuplicator st) (syncType a) (userWallet a) (secondaryEndpoint a) of
        Some duplicateSyncJobInfo \<Rightarrow>
          (Returned duplicateSyncJobInfo,
           log (LogEnqueueSyncFailure (syncType a) (userWallet a) (secondaryEndpoint a)) st)
      | None \<Rightarrow>
          (case queueAddError env (syncRequestParametersOf a) of
             Some e \<Rightarrow> (Rejected e, st)
           | None \<Rightarrow>
               (if syncType a = Manual
                then (let (jobInfo, q) = queue_add (manualSyncQueue st) (syncRequestParametersOf a)
                      in (Awaiting jobInfo, st\<lparr>manualSyncQueue := q\<rparr>))
                else (let (jobInfo, q) = queue_add (recurringSyncQueue st) (syncRequestParametersOf a)
                      in (Awaiting jobInfo, st\<lparr>recurringSyncQueue := q\<rparr>)))))"

definition enqueueSync_end ::
  "enqueueSyncParams \<Rightarrow> enqueueProgress \<Rightarrow> snapbackSM \<Rightarrow> (error + job) \<times> snapbackSM" where
  "enqueueSync_end a p st =
     (case p of
        Returned j \<Rightarrow> (Inr j, st)
      | Rejected e \<Rightarrow> (Inl e, st)
      | Awaiting jobInfo \<Rightarrow>
          (Inr jobInfo,
           st\<lparr>syncDeDuplicator := recordSync (syncDeDuplicator st) (syncType a) (userWallet a) (secondaryEndpoint a) jobInfo\<rparr>))"

text \<open>A call of \<open>enqueueSync\<close> that nothing interleaves with: both steps in a row.\<close>

definition enqueueSync :: "collaborators \<Rightarrow> enqueueSyncParams \<Rightarrow> job io" where
  "enqueueSync env a st = (let (p, st') = enqueueSync_begin env a st in enqueueSync_end a p st')"

section \<open>issueUpdateReplicaSetOp\<close>

definition updateReplicaSet ::
  "collaborators \<Rightarrow> int \<Rightarrow> int option \<Rightarrow> int option list \<Rightarrow> unit io" where
  "updateReplicaSet env userId newPrimary newSecondaries st =
     (case updateReplicaSetError env userId newPrimary newSecondaries of
        Some e \<Rightarrow> (Inl e, st)
      | None \<Rightarrow> (Inr (), st\<lparr>registryWrites := registryWrites st @ [(userId, newPrimary, newSecondaries)]\<rparr>))"

definition writeReplicaSet ::
  "collaborators \<Rightarrow> int \<Rightarrow> int option list option \<Rightarrow> unit io" where
  \<comment> \<open>\<open>newReplicaSetSPIds\<close> is still undefined when no branch assigned it: reading its
      element 0 throws before the registry is called\<close>
  "writeReplicaSet env userId newReplicaSetSPIds st =
     (case newReplicaSetSPIds of
        None \<Rightarrow> (Inl (TypeError ''Cannot read property 0 of undefined''), st)
      | Some ids \<Rightarrow> updateReplicaSet env userId (js_index ids 0) (drop 1 ids) st)"

definition seedSync :: "collaborators \<Rightarrow> jsstr \<Rightarrow> jsstr \<Rightarrow> jsstr \<Rightarrow> job io" where
  \<comment> \<open>\<open>enqueueSync({...baseSyncRequestParams, primaryEndpoint, secondaryEndpoint})\<close>\<close>
  "seedSync env w src tgt =
     enqueueSync env \<lparr>userWallet = w, primaryEndpoint = src, secondaryEndpoint = tgt,
                      syncType = Manual, immediate = True\<rparr>"

definition logReplicaSet :: "int \<Rightarrow> jsstr \<Rightarrow> jsstr list \<Rightarrow> jsstr list \<Rightarrow> unit io" where
  "logReplicaSet userId w old new st = (Inr (), log (LogUpdatingReplicaSet userId w old new) st)"

definition endpointToClockMapOf :: "(jsstr \<times> clock) list \<Rightarrow> string \<Rightarrow> clock" where
  "endpointToClockMapOf clockResponses =
     fold (\<lambda>(e, c) acc. acc(js_key e := c)) clockResponses (\<lambda>_. Undefined)"

text \<open>The body of the \<open>try\<close> block. \<open>p\<close>, \<open>s1\<close>, \<open>s2\<close> and \<open>w\<close> are the source's
  \<open>primary\<close>, \<open>secondary1\<close>, \<open>secondary2\<close> and \<open>wallet\<close>; \<open>r0\<close>, \<open>r1\<close>, \<open>r2\<close> are the
  primary and the two secondaries of the selected set. The variable \<open>phase\<close> is assigned
  at each step and read nowhere, so it is left out.\<close>

definition issueUpdateReplicaSetOp_try ::
  "collaborators \<Rightarrow> int \<Rightarrow> jsstr \<Rightarrow> jsstr \<Rightarrow> jsstr \<Rightarrow> jsstr \<Rightarrow> jsstr list \<Rightarrow> unit io" where
  "issueUpdateReplicaSetOp_try env userId w p s1 s2 unhealthyReplicas st =
     (let currentReplicaSet = [p, s1, s2] in
      case autoSelectCreatorNodes env currentReplicaSet of
        Inl e \<Rightarrow> (Inl e, st)
      | Inr randomReplicaSet \<Rightarrow>
          (let healthyReplicas = filter (\<lambda>replica. replica \<notin> set unhealthyReplicas) currentReplicaSet;
               r0 = rs_primary randomReplicaSet;
               r1 = js_index (rs_secondaries randomReplicaSet) 0;
               r2 = js_index (rs_secondaries randomReplicaSet) 1;
               spId = (\<lambda>e. endpointToSPIdMap env e)
           in
           if length healthyReplicas = 0 then
             andThen (seedSync env w p r0) (\<lambda>_.
             andThen (seedSync env w p r1) (\<lambda>_.
             andThen (seedSync env w p r2) (\<lambda>_.
             andThen (logReplicaSet userId w currentReplicaSet [r0, r1, r2]) (\<lambda>_.
             writeReplicaSet env userId (Some [spId r0, spId r1, spId r2]))))) st
           else if length healthyReplicas = 1 then
             andThen (seedSync env w p r0) (\<lambda>_.
             andThen (seedSync env w p r1) (\<lambda>_.
             andThen (logReplicaSet userId w currentReplicaSet [p, r0, r1]) (\<lambda>_.
             writeReplicaSet env userId (Some [spId p, spId r0, spId r1])))) st
           else if length healthyReplicas = 2 then
             (case getClockValuesFromReplicaSet env of
                Inl e \<Rightarrow> (Inl e, st)
              | Inr clockResponses \<Rightarrow>
                  (let endpointToClockMap = endpointToClockMapOf clockResponses;
                       h0 = js_index healthyReplicas 0;
                       h1 = js_index healthyReplicas 1;
                       (newPrimary, newSecondary) =
                          (if js_ge (endpointToClockMap (js_key h0)) (endpointToClockMap (js_key h1))
                           then (h0, h1) else (h1, h0))
                   in
                   andThen (seedSync env w newPrimary newSecondary) (\<lambda>_.
                   andThen (seedSync env w newPrimary r0) (\<lambda>_.
                   andThen (logReplicaSet userId w currentReplicaSet [newPrimary, newSecondary, r0]) (\<lambda>_.
                   writeReplicaSet env userId (Some [spId newPrimary, spId newSecondary, spId r0])))) st))
           else writeReplicaSet env userId None st))"

text \<open>The function itself: the first log line, the \<open>try\<close> block, and the \<open>catch\<close> block,
  which is empty. Whatever the block threw, the function returns.\<close>

definition issueUpdateReplicaSetOp ::
  "collaborators \<Rightarrow> int \<Rightarrow> jsstr \<Rightarrow> jsstr \<Rightarrow> jsstr \<Rightarrow> jsstr \<Rightarrow> jsstr list \<Rightarrow> snapbackSM \<Rightarrow> snapbackSM" where
  "issueUpdateReplicaSetOp env userId w p s1 s2 unhealthyReplicas st =
     (case issueUpdateReplicaSetOp_try env userId w p s1 s2 unhealthyReplicas
             (log (LogIssueUpdateReplicaSetOp userId w unhealthyReplicas) st) of
        (Inl e, st') \<Rightarrow> st'
      | (Inr _, st') \<Rightarrow> st')"

section \<open>Planning: what one pass asks for\<close>

record potentialSyncRequest = nodeUser +
  endpoint :: jsstr

record requiredUpdateReplicaSetOp = nodeUser +
  unhealthyReplicas :: "jsstr list"

definition withEndpoint :: "nodeUser \<Rightarrow> jsstr \<Rightarrow> potentialSyncRequest" where
  \<comment> \<open>\<open>{ ...nodeUser, endpoint: secondary }\<close>\<close>
  "withEndpoint u s =
     \<lparr>user_id = user_id u, wallet = wallet u, primary = primary u, secondary1 = secondary1 u,
      secondary2 = secondary2 u, endpoint = s\<rparr>"

definition withUnhealthyReplicas :: "nodeUser \<Rightarrow> jsstr list \<Rightarrow> requiredUpdateReplicaSetOp" where
  \<comment> \<open>\<open>{ ...nodeUser, unhealthyReplicas }\<close>\<close>
  "withUnhealthyReplicas u rs =
     \<lparr>user_id = user_id u, wallet = wallet u, primary = primary u, secondary1 = secondary1 u,
      secondary2 = secondary2 u, unhealthyReplicas = rs\<rparr>"

definition sliceUsers :: "snapbackSM \<Rightarrow> nodeUser list \<Rightarrow> nodeUser list" where
  "sliceUsers st nodeUsers =
     filter (\<lambda>nodeUser. js_rem (user_id nodeUser) (int ModuloBase) = int (currentModuloSlice st)) nodeUsers"

text \<open>The body of the loop over \<open>nodeUsers\<close>, for one user: the replica-set update it
  records and the potential sync requests it records.\<close>

definition planNodeUser ::
  "collaborators \<Rightarrow> jsstr list \<Rightarrow> nodeUser \<Rightarrow> requiredUpdateReplicaSetOp \<times> potentialSyncRequest list" where
  "planNodeUser env unhealthyPeers nodeUser =
     (if primary nodeUser = creatorNodeEndpoint env then
        (let secondaries = filter truthy [secondary1 nodeUser, secondary2 nodeUser]
         in (withUnhealthyReplicas nodeUser (filter (\<lambda>s. s \<in> set unhealthyPeers) secondaries),
             map (withEndpoint nodeUser) (filter (\<lambda>s. s \<notin> set unhealthyPeers) secondaries)))
      else
        (let replicas = filter (\<lambda>replica. replica \<noteq> creatorNodeEndpoint env)
                          (filter truthy [primary nodeUser, secondary1 nodeUser, secondary2 nodeUser])
         in (withUnhealthyReplicas nodeUser (filter (\<lambda>r. r \<in> set unhealthyPeers) replicas), [])))"

text \<open>An object keyed by secondary, kept as a list of entries in insertion order.\<close>

definition buildSecondaryNodesToUserWalletsMap ::
  "potentialSyncRequest list \<Rightarrow> (string \<times> jsstr list) list" where
  "buildSecondaryNodesToUserWalletsMap potentialSyncRequests =
     fold (\<lambda>userInfo m.
             (let secondary = js_key (endpoint userInfo) in
              case map_of m secondary of
                None \<Rightarrow> m @ [(secondary, [wallet userInfo])]
              | Some _ \<Rightarrow> map (\<lambda>(k, ws). if k = secondary then (k, ws @ [wallet userInfo]) else (k, ws)) m))
          potentialSyncRequests []"

text \<open>One batched request per secondary; the requests run in parallel and one failure
  fails them all (\<open>Promise.all\<close>).\<close>

fun retrieveClockStatusesForSecondaryUsersFromNodes ::
  "collaborators \<Rightarrow> (string \<times> jsstr list) list \<Rightarrow> error + (string \<Rightarrow> (string \<Rightarrow> clock) option)" where
  "retrieveClockStatusesForSecondaryUsersFromNodes env [] = Inr (\<lambda>_. None)"
| "retrieveClockStatusesForSecondaryUsersFromNodes env ((secondaryNode, secondaryNodeUserWallets) # rest) =
     (case batchClockStatus env secondaryNode secondaryNodeUserWallets of
        Inl e \<Rightarrow> Inl e
      | Inr userClockValuesResp \<Rightarrow>
          (case retrieveClockStatusesForSecondaryUsersFromNodes env rest of
             Inl e \<Rightarrow> Inl e
           | Inr m \<Rightarrow>
               Inr (m(secondaryNode \<mapsto>
                      fold (\<lambda>(walletPublicKey, c) acc. acc(js_key walletPublicKey := c))
                           userClockValuesResp (\<lambda>_. Undefined)))))"

section \<open>issueSyncRequests\<close>

definition syncRequired :: "clock \<Rightarrow> clock \<Rightarrow> bool" where
  \<comment> \<open>\<open>!userSecondaryClockVal || (userPrimaryClockVal > userSecondaryClockVal)\<close>\<close>
  "syncRequired userPrimaryClockVal userSecondaryClockVal =
     (js_not userSecondaryClockVal \<or> js_gt userPrimaryClockVal userSecondaryClockVal)"

record syncRequestsResp =
  numSyncRequestsRequired :: nat
  numSyncRequestsIssued :: nat
  syncRequestErrors :: "error list"

definition recurringSyncParams :: "collaborators \<Rightarrow> potentialSyncRequest \<Rightarrow> enqueueSyncParams" where
  "recurringSyncParams env user =
     \<lparr>userWallet = wallet user, primaryEndpoint = creatorNodeEndpoint env,
      secondaryEndpoint = endpoint user, syncType = Recurring, immediate = False\<rparr>"

text \<open>
  The callbacks of \<open>userReplicaSets.map(async (user) => ...)\<close> are all started before
  any of them resumes: each runs up to its first suspension point, the
  \<open>await queue.add\<close> inside \<open>enqueueSync\<close>, and the rest runs once the map is over.
  \<open>issueSyncRequest_start\<close> is the part of one callback before that point, working on the
  counters, the calls in flight and the state; \<open>issueSyncRequest_resume\<close> is the part
  after it. The calls resume in the order they were started.
\<close>

definition issueSyncRequest_start ::
  "collaborators \<Rightarrow> (string \<Rightarrow> clock) \<Rightarrow> (string \<Rightarrow> (string \<Rightarrow> clock) option) \<Rightarrow> potentialSyncRequest \<Rightarrow>
   syncRequestsResp \<times> (enqueueSyncParams \<times> enqueueProgress) list \<times> snapbackSM \<Rightarrow>
   syncRequestsResp \<times> (enqueueSyncParams \<times> enqueueProgress) list \<times> snapbackSM" where
  "issueSyncRequest_start env userPrimaryClockValues secondaryNodesToUserClockStatusesMap user acc =
     (case acc of (resp, inFlight, st) \<Rightarrow>
       (case secondaryNodesToUserClockStatusesMap (js_key (endpoint user)) of
          None \<Rightarrow>
            (resp\<lparr>syncRequestErrors :=
                     syncRequestErrors resp @ [TypeError ''Cannot read property of undefined'']\<rparr>,
             inFlight, st)
        | Some secondaryClocks \<Rightarrow>
            (if syncRequired (userPrimaryClockValues (js_key (wallet user)))
                             (secondaryClocks (js_key (wallet user)))
             then (let (progress, st') = enqueueSync_begin env (recurringSyncParams env user) st
                   in (resp\<lparr>numSyncRequestsRequired := numSyncRequestsRequired resp + 1\<rparr>,
                       inFlight @ [(recurringSyncParams env user, progress)], st'))
             else (resp, inFlight, st))))"

definition issueSyncRequest_resume ::
  "enqueueSyncParams \<times> enqueueProgress \<Rightarrow> syncRequestsResp \<times> snapbackSM \<Rightarrow> syncRequestsResp \<times> snapbackSM" where
  "issueSyncRequest_resume call acc =
     (case acc of (resp, st) \<Rightarrow>
       (case enqueueSync_end (fst call) (snd call) st of
          (Inr _, st') \<Rightarrow> (resp\<lparr>numSyncRequestsIssued := numSyncRequestsIssued resp + 1\<rparr>, st')
        | (Inl e, st') \<Rightarrow> (resp\<lparr>syncRequestErrors := syncRequestErrors resp @ [e]\<rparr>, st')))"

definition issueSyncRequests ::
  "collaborators \<Rightarrow> potentialSyncRequest list \<Rightarrow> (string \<Rightarrow> (string \<Rightarrow> clock) option) \<Rightarrow> syncRequestsResp io" where
  "issueSyncRequests env userReplicaSets secondaryNodesToUserClockStatusesMap st =
     (case getUserPrimaryClockValues env (map wallet userReplicaSets) of
        Inl e \<Rightarrow> (Inl e, st)
      | Inr userPrimaryClockValues \<Rightarrow>
          (case fold (issueSyncRequest_start env userPrimaryClockValues secondaryNodesToUserClockStatusesMap)
                     userReplicaSets
                     (\<lparr>numSyncRequestsRequired = 0, numSyncRequestsIssued = 0, syncRequestErrors = []\<rparr>, [], st) of
             (resp, inFlight, st') \<Rightarrow>
               (case fold issueSyncRequest_resume inFlight (resp, st') of
                  (resp', st'') \<Rightarrow> (Inr resp', st''))))"

section \<open>processStateMachineOperation\<close>

text \<open>The decision tree is kept as the list of its stage labels.\<close>

type_synonym decisionTree = "string list"

definition issueSyncRequests_stage ::
  "collaborators \<Rightarrow> potentialSyncRequest list \<Rightarrow> (string \<Rightarrow> (string \<Rightarrow> clock) option) \<Rightarrow> decisionTree \<Rightarrow>
   snapbackSM \<Rightarrow> ((error + syncRequestsResp) \<times> decisionTree) \<times> snapbackSM" where
  "issueSyncRequests_stage env potentialSyncRequests secondaryNodesToUserClockStatusesMap tree st =
     (case issueSyncRequests env potentialSyncRequests secondaryNodesToUserClockStatusesMap st of
        (Inl e, st') \<Rightarrow>
          ((Inl (Error ''processStateMachineOperation():issueSyncRequests() Error''),
            tree @ [''issueSyncRequests() Error'']), st')
      | (Inr resp, st') \<Rightarrow>
          (if length (syncRequestErrors resp) > numSyncRequestsIssued resp
           then ((Inl (Error ''processStateMachineOperation():issueSyncRequests() Error''),
                  tree @ [''issueSyncRequests() Error'']), st')
           else ((Inr resp, tree @ [''issueSyncRequests() Success'']), st')))"

definition issueUpdateReplicaSetOps ::
  "collaborators \<Rightarrow> requiredUpdateReplicaSetOp list \<Rightarrow> snapbackSM \<Rightarrow> snapbackSM" where
  \<comment> \<open>\<open>for await (const userInfo of requiredUpdateReplicaSetOps)\<close>: one user after the other\<close>
  "issueUpdateReplicaSetOps env requiredUpdateReplicaSetOps st =
     fold (\<lambda>userInfo. issueUpdateReplicaSetOp env (user_id userInfo) (wallet userInfo) (primary userInfo)
                         (secondary1 userInfo) (secondary2 userInfo) (unhealthyReplicas userInfo))
          requiredUpdateReplicaSetOps st"

definition advanceSlice :: "snapbackSM \<Rightarrow> snapbackSM" where
  "advanceSlice st = st\<lparr>currentModuloSlice := (currentModuloSlice st + 1) mod ModuloBase\<rparr>"

text \<open>The body of the outer \<open>try\<close> block: the result, the decision tree so far, the state.\<close>

definition processStateMachineOperation_try ::
  "collaborators \<Rightarrow> decisionTree \<Rightarrow> snapbackSM \<Rightarrow> ((error + unit) \<times> decisionTree) \<times> snapbackSM" where
  "processStateMachineOperation_try env tree st =
     (case getNodeUsers env of
        Inl e \<Rightarrow>
          ((Inl (Error ''processStateMachineOperation():getNodeUsers()/sliceUsers() Error''),
            tree @ [''getNodeUsers() or sliceUsers() Error'']), st)
      | Inr allNodeUsers \<Rightarrow>
          (let nodeUsers = sliceUsers st allNodeUsers;
               tree1 = tree @ [''getNodeUsers() and sliceUsers() Success'']
           in
           case getUnhealthyPeers env nodeUsers of
             Inl e \<Rightarrow>
               ((Inl (Error ''processStateMachineOperation():getUnhealthyPeers() Error''),
                 tree1 @ [''processStateMachineOperation():getUnhealthyPeers() Error'']), st)
           | Inr unhealthyPeers \<Rightarrow>
               (let plans = map (planNodeUser env unhealthyPeers) nodeUsers;
                    requiredUpdateReplicaSetOps = map fst plans;
                    potentialSyncRequests = concat (map snd plans);
                    secondaryNodesToUserWalletsMap = buildSecondaryNodesToUserWalletsMap potentialSyncRequests;
                    tree2 = tree1 @ [''getUnhealthyPeers() Success'',
                                     ''Build requiredUpdateReplicaSetOps and potentialSyncRequests arrays'',
                                     ''buildSecondaryNodesToUserWalletsMap() Success'']
                in
                case retrieveClockStatusesForSecondaryUsersFromNodes env secondaryNodesToUserWalletsMap of
                  Inl e \<Rightarrow>
                    ((Inl (Error ''processStateMachineOperation():retrieveClockStatusesForSecondaryUsersFromNodes() Error''),
                      tree2 @ [''retrieveClockStatusesForSecondaryUsersFromNodes() Error'']), st)
                | Inr secondaryNodesToUserClockStatusesMap \<Rightarrow>
                    (case issueSyncRequests_stage env potentialSyncRequests secondaryNodesToUserClockStatusesMap
                            (tree2 @ [''retrieveClockStatusesForSecondaryUsersFromNodes() Success'']) st of
                       ((Inl e, tree3), st') \<Rightarrow> ((Inl e, tree3), st')
                     | ((Inr resp, tree3), st') \<Rightarrow>
                         ((Inr (), tree3 @ [''issueUpdateReplicaSetOp() Success'',
                                            ''END processStateMachineOperation()'']),
                          advanceSlice (issueUpdateReplicaSetOps env requiredUpdateReplicaSetOps st'))))))"

text \<open>The function: the \<open>try\<close> block, the \<open>catch\<close> block that adds the error stage, and
  the \<open>finally\<close> block that logs the decision tree.\<close>

definition processStateMachineOperation :: "collaborators \<Rightarrow> snapbackSM \<Rightarrow> snapbackSM" where
  "processStateMachineOperation env st =
     (case processStateMachineOperation_try env [''BEGIN processStateMachineOperation()''] st of
        ((Inl e, tree), st') \<Rightarrow> log (LogDecisionTree (tree @ [''processStateMachineOperation Error''])) st'
      | ((Inr _, tree), st') \<Rightarrow> log (LogDecisionTree tree) st')"

section \<open>additionalSyncIsRequired\<close>

text \<open>
  The polling loop, with the time made explicit: \<open>now\<close> is what \<open>Date.now()\<close> reads when
  the loop condition is evaluated, \<open>endTimeMs\<close> the deadline. Each round that goes on
  waits \<open>SyncMonitoringRetryDelayMs\<close>, so the loop ends. The result is the value of
  \<open>additionalSyncRequired\<close> and the lines the loop logged, each with the time of its
  round.
\<close>

function monitorSync ::
  "collaborators \<Rightarrow> jsstr \<Rightarrow> clock \<Rightarrow> jsstr \<Rightarrow> nat \<Rightarrow> nat \<Rightarrow> bool \<times> logEntry list" where
  "monitorSync env userWallet' primaryClockValue secondaryUrl endTimeMs now =
     (if now < endTimeMs then
        (case clockStatus env secondaryUrl userWallet' now of
           (Inl e, d) \<Rightarrow>
             (case monitorSync env userWallet' primaryClockValue secondaryUrl endTimeMs
                     (now + d + SyncMonitoringRetryDelayMs) of
                (r, l) \<Rightarrow> (r, LogMonitorError now e # l))
         | (Inr secondaryClockValue, d) \<Rightarrow>
             (if js_lt (js_plus secondaryClockValue (maxExportClockValueRange env)) primaryClockValue
              then (True, [LogSecondaryClock now secondaryClockValue,
                           LogRangeExceeded now secondaryClockValue])
              else if js_ge secondaryClockValue primaryClockValue
              then (False, [LogSecondaryClock now secondaryClockValue,
                            LogSyncCompleted now secondaryClockValue])
              else (case monitorSync env userWallet' primaryClockValue secondaryUrl endTimeMs
                           (now + d + SyncMonitoringRetryDelayMs) of
                      (r, l) \<Rightarrow> (r, LogSecondaryClock now secondaryClockValue # l))))
      else (True, []))"
  by pat_completeness auto
termination
  by (relation "measure (\<lambda>(env, userWallet', primaryClockValue, secondaryUrl, endTimeMs, now). endTimeMs - now)")
     (auto simp: SyncMonitoringRetryDelayMs_def)

declare monitorSync.simps [simp del]

definition additionalSyncIsRequired ::
  "collaborators \<Rightarrow> jsstr \<Rightarrow> clock \<Rightarrow> jsstr \<Rightarrow> SyncType \<Rightarrow> nat \<Rightarrow> bool \<times> logEntry list" where
  \<comment> \<open>the last argument is the time of the call, \<open>startTimeMs\<close>\<close>
  "additionalSyncIsRequired env userWallet' primaryClockValue secondaryUrl ty startTimeMs =
     monitorSync env userWallet' primaryClockValue secondaryUrl
       (startTimeMs + MaxSyncMonitoringDurationInMs) startTimeMs"

text \<open>
  What the secondary answers while a sync is monitored. The loop reads the clock once per
  round, a round starts only before the deadline, and the next round starts when the
  request has answered and the retry delay has passed. \<open>pollSchedule\<close> lists the rounds
  that start before the deadline when no answer ends the loop: the time of each and what
  \<open>clockStatus\<close> answers at that time. It depends on the collaborator and on the clock
  only, not on the primary's clock value or on what the loop decides.
\<close>

function pollSchedule ::
  "collaborators \<Rightarrow> jsstr \<Rightarrow> jsstr \<Rightarrow> nat \<Rightarrow> nat \<Rightarrow> (nat \<times> (error + clock)) list" where
  "pollSchedule env userWallet' secondaryUrl endTimeMs now =
     (if now < endTimeMs then
        (now, fst (clockStatus env secondaryUrl userWallet' now)) #
        pollSchedule env userWallet' secondaryUrl endTimeMs
          (now + snd (clockStatus env secondaryUrl userWallet' now) + SyncMonitoringRetryDelayMs)
      else [])"
  by pat_completeness auto
termination
  by (relation "measure (\<lambda>(env, userWallet', secondaryUrl, endTimeMs, now). endTimeMs - now)")
     (auto simp: SyncMonitoringRetryDelayMs_def)

declare pollSchedule.simps [simp del]

section \<open>processSyncOperation\<close>

text \<open>
  A job of the model always has the four fields \<open>isValidSyncJobData\<close> asks for, so the
  early return for invalid job data has no case here. The last argument is the time at
  which monitoring starts.
\<close>

definition processSyncOperation ::
  "collaborators \<Rightarrow> job \<Rightarrow> SyncType \<Rightarrow> nat \<Rightarrow> unit io" where
  "processSyncOperation env j ty startTimeMs st =
     (let userWallet' = js_index (data_wallet (jobData j)) 0;
          secondaryEndpoint' = baseURL (jobData j);
          st1 = st\<lparr>syncDeDuplicator := removeSync (syncDeDuplicator st) ty userWallet' secondaryEndpoint'\<rparr>
      in
      case getUserPrimaryClockValues env [userWallet'] of
        Inl e \<Rightarrow> (Inl e, st1)
      | Inr clocks \<Rightarrow>
          (let primaryClockValue = clocks (js_key userWallet');
               st2 = log (LogProcessSync userWallet' secondaryEndpoint' primaryClockValue ty (jobId j)) st1
           in
           case syncRequest env (jobData j) of
             Some e \<Rightarrow> (Inl e, st2)
           | None \<Rightarrow>
               (case additionalSyncIsRequired env userWallet' primaryClockValue secondaryEndpoint' ty startTimeMs of
                  (additionalSyncRequired, monitorLog) \<Rightarrow>
                    (let st3 = st2\<lparr>logged := logged st2 @ monitorLog\<rparr> in
                     if additionalSyncRequired then
                       andThen (enqueueSync env \<lparr>userWallet = userWallet',
                                  primaryEndpoint = creatorNodeEndpoint env,
                                  secondaryEndpoint = secondaryEndpoint', syncType = ty, immediate = False\<rparr>)
                               (\<lambda>_ s. (Inr (), log (LogEndProcessSync (jobId j)) s)) st3
                     else (Inr (), log (LogEndProcessSync (jobId j)) st3)))))"

text \<open>
  The processors registered in \<open>init\<close>: a worker of the queue of the given type takes the
  oldest waiting job, runs \<open>processSyncOperation\<close> on it, logs what it threw, and is
  done with the job.
\<close>

definition syncQueue :: "SyncType \<Rightarrow> snapbackSM \<Rightarrow> bullQueue" where
  "syncQueue ty st = (if ty = Manual then manualSyncQueue st else recurringSyncQueue st)"

definition setSyncQueue :: "SyncType \<Rightarrow> bullQueue \<Rightarrow> snapbackSM \<Rightarrow> snapbackSM" where
  "setSyncQueue ty q st = (if ty = Manual then st\<lparr>manualSyncQueue := q\<rparr> else st\<lparr>recurringSyncQueue := q\<rparr>)"

definition processNextSyncJob :: "collaborators \<Rightarrow> SyncType \<Rightarrow> nat \<Rightarrow> snapbackSM \<Rightarrow> snapbackSM" where
  "processNextSyncJob env ty startTimeMs st =
     (case queue_take (syncQueue ty st) of
        None \<Rightarrow> st
      | Some (j, q) \<Rightarrow>
          (case processSyncOperation env j ty startTimeMs (setSyncQueue ty q st) of
             (Inl e, st') \<Rightarrow>
               (let st'' = log (LogQueueProcessingError ty e) st'
                in setSyncQueue ty (queue_done (syncQueue ty st'') j) st'')
           | (Inr _, st') \<Rightarrow> setSyncQueue ty (queue_done (syncQueue ty st') j) st'))"

section \<open>Pending jobs per fingerprint\<close>

definition fingerprintOf :: "job \<Rightarrow> fingerprint" where
  "fingerprintOf j =
     (data_sync_type (jobData j), js_index (data_wallet (jobData j)) 0, baseURL (jobData j))"

definition pendingJobs :: "fingerprint \<Rightarrow> snapbackSM \<Rightarrow> job list" where
  "pendingJobs fp st =
     filter (\<lambda>j. fingerprintOf j = fp) (waiting (manualSyncQueue st) @ waiting (recurringSyncQueue st))"

text \<open>The job that \<open>queue.add\<close> creates for a call of \<open>enqueueSync\<close>.\<close>

definition newJob :: "bullQueue \<Rightarrow> enqueueSyncParams \<Rightarrow> job" where
  "newJob q a = \<lparr>jobId = jobCounter q + 1, jobData = syncRequestParametersOf a\<rparr>"

section \<open>The invariant of the sync queues\<close>

text \<open>
  The jobs waiting in the manual queue are manual and those in the recurring queue
  recurring (a worker removes a job's fingerprint under the type of its queue); for every
  fingerprint at most one job is waiting; and a fingerprint with a waiting job is recorded
  in the de-duplicator.
\<close>

definition singlePending :: "snapbackSM \<Rightarrow> bool" where
  "singlePending st \<longleftrightarrow>
     list_all (\<lambda>j. data_sync_type (jobData j) = Manual) (waiting (manualSyncQueue st)) \<and>
     list_all (\<lambda>j. data_sync_type (jobData j) = Recurring) (waiting (recurringSyncQueue st)) \<and>
     (\<forall>fp. length (pendingJobs fp st) \<le> 1 \<and>
           (length (pendingJobs fp st) = 1 \<longrightarrow> syncDeDuplicator st fp \<noteq> None))"

text \<open>
  The calls that change the queues, each run from start to end before the next one starts:
  a call of \<open>enqueueSync\<close>, a worker taking and processing the next job of a queue, a
  call of \<open>issueUpdateReplicaSetOp\<close>.
\<close>

datatype step =
    Enqueue enqueueSyncParams
  | Process SyncType nat
  | Reconfigure int jsstr jsstr jsstr jsstr "jsstr list"

fun sequentialStep :: "collaborators \<Rightarrow> step \<Rightarrow> snapbackSM \<Rightarrow> snapbackSM" where
  "sequentialStep env (Enqueue a) st = snd (enqueueSync env a st)"
| "sequentialStep env (Process ty startTimeMs) st = processNextSyncJob env ty startTimeMs st"
| "sequentialStep env (Reconfigure userId w p s1 s2 unhealthy) st =
     issueUpdateReplicaSetOp env userId w p s1 s2 unhealthy st"

definition sequentialRun :: "collaborators \<Rightarrow> step list \<Rightarrow> snapbackSM \<Rightarrow> snapbackSM" where
  "sequentialRun env steps st = fold (sequentialStep env) steps st"

section \<open>Example configurations\<close>

text \<open>A node with empty queues and collaborators that all answer, used to run the
  operations on concrete inputs.\<close>

definition st0 :: snapbackSM where
  "st0 = \<lparr>currentModuloSlice = 0,
          manualSyncQueue = \<lparr>waiting = [], active = [], jobCounter = 0\<rparr>,
          recurringSyncQueue = \<lparr>waiting = [], active = [], jobCounter = 0\<rparr>,
          syncDeDuplicator = Map.empty, registryWrites = [], logged = []\<rparr>"

definition env0 :: collaborators where
  "env0 = \<lparr>creatorNodeEndpoint = Some ''self'',
           maxExportClockValueRange = 10000,
           endpointToSPIdMap = (\<lambda>e. map_of [(Some ''self'', 1), (Some ''s1'', 2), (Some ''s2'', 3),
                                               (Some ''r0'', 4), (Some ''r1'', 5), (Some ''r2'', 6),
                                               (Some ''p'', 7)] e),
           getNodeUsers = Inr [],
           getUnhealthyPeers = (\<lambda>_. Inr []),
           batchClockStatus = (\<lambda>_ ws. Inr (map (\<lambda>w. (w, Number 0)) ws)),
           cnodeUserFindAll = (\<lambda>ws. Inr (map (\<lambda>w. (w, Number 0)) ws)),
           queueAddError = (\<lambda>_. None),
           autoSelectCreatorNodes = (\<lambda>_. Inr \<lparr>rs_primary = Some ''r0'', rs_secondaries = [Some ''r1'', Some ''r2'']\<rparr>),
           getClockValuesFromReplicaSet = Inr [(Some ''p'', Number 7), (Some ''self'', Number 7), (Some ''s2'', Number 9)],
           updateReplicaSetError = (\<lambda>_ _ _. None),
           syncRequest = (\<lambda>_. None),
           clockStatus = (\<lambda>_ _ _. (Inr (Number 0), 0))\<rparr>"

definition envListUsersFails :: collaborators where
  "envListUsersFails = env0\<lparr>getNodeUsers := Inl (Error ''discovery provider unreachable'')\<rparr>"

definition st5 :: snapbackSM where
  "st5 = st0\<lparr>currentModuloSlice := 5\<rparr>"

definition syncA :: enqueueSyncParams where
  "syncA = \<lparr>userWallet = Some ''0xA'', primaryEndpoint = Some ''self'', secondaryEndpoint = Some ''s1'',
            syncType = Recurring, immediate = False\<rparr>"

definition jobA :: job where
  "jobA = \<lparr>jobId = 1, jobData = syncRequestParametersOf syncA\<rparr>"

definition envPoll :: collaborators where
  "envPoll = env0\<lparr>clockStatus := (\<lambda>_ _ t. if t < 15000 then (Inr (Number 5), 40)
                                        else if t < 30000 then (Inl (Error ''ECONNRESET''), 0)
                                        else (Inr (Number 10), 25))\<rparr>"

definition userZero :: nodeUser where
  "userZero = \<lparr>user_id = 0, wallet = Some ''0xA'', primary = Some ''self'',
               secondary1 = Some ''s1'', secondary2 = Some ''s2''\<rparr>"

definition envZeroClocks :: collaborators where
  "envZeroClocks = env0\<lparr>getNodeUsers := Inr [userZero]\<rparr>"

definition envSelectionFails :: collaborators where
  "envSelectionFails = env0\<lparr>autoSelectCreatorNodes := (\<lambda>_. Inl (Error ''no content node available''))\<rparr>"

definition envRegistryFails :: collaborators where
  "envRegistryFails = env0\<lparr>updateReplicaSetError := (\<lambda>_ _ _. Some (Error ''transaction reverted''))\<rparr>"

definition userA_s1 :: potentialSyncRequest where
  "userA_s1 = \<lparr>user_id = 0, wallet = Some ''0xA'', primary = Some ''self'',
               secondary1 = Some ''s1'', secondary2 = Some ''s2'', endpoint = Some ''s1''\<rparr>"

definition noClocksOnS1 :: "string \<Rightarrow> (string \<Rightarrow> clock) option" where
  "noClocksOnS1 = [''s1'' \<mapsto> (\<lambda>_. Undefined)]"

definition envDuplicateUser :: collaborators where
  "envDuplicateUser =
     env0\<lparr>getNodeUsers := Inr [userZero, userZero],
          cnodeUserFindAll := (\<lambda>ws. Inr (map (\<lambda>w. (w, Number 10)) ws)),
          batchClockStatus := (\<lambda>_ ws. Inr (map (\<lambda>w. (w, Number 5)) ws))\<rparr>"

text \<open>A secondary that is more than one export range behind at the first poll, and one
  that stays behind within the range until the deadline.\<close>

definition envPollFarBehind :: collaborators where
  "envPollFarBehind = env0\<lparr>clockStatus := (\<lambda>_ _ t. if t < 15000 then (Inr (Number 5), 0)
                                                  else (Inr (Number 30000), 0))\<rparr>"

definition envPollStuck :: collaborators where
  "envPollStuck = env0\<lparr>clockStatus := (\<lambda>_ _ _. (Inr (Number 15000), 0))\<rparr>"

text \<open>A clock fetch that answers for \<open>p\<close> and for this node, and not for \<open>s2\<close>.\<close>

definition envNoClockForS2 :: collaborators where
  "envNoClockForS2 =
     env0\<lparr>getClockValuesFromReplicaSet := Inr [(Some ''p'', Number 7), (Some ''self'', Number 9)]\<rparr>"

text \<open>One user of slice 0 whose primary is this node, at clock 10 here and 5 on the
  secondaries. In the first configuration \<open>s2\<close> is unhealthy and the recurring queue
  rejects every job; in the second both secondaries are healthy and the queue rejects the
  jobs for \<open>s1\<close> only.\<close>

definition envRecurringQueueDown :: collaborators where
  "envRecurringQueueDown =
     env0\<lparr>getNodeUsers := Inr [userZero],
          getUnhealthyPeers := (\<lambda>_. Inr [Some ''s2'']),
          cnodeUserFindAll := (\<lambda>ws. Inr (map (\<lambda>w. (w, Number 10)) ws)),
          batchClockStatus := (\<lambda>_ ws. Inr (map (\<lambda>w. (w, Number 5)) ws)),
          queueAddError := (\<lambda>ps. if data_sync_type ps = Recurring
                                   then Some (Error ''redis connection lost'') else None)\<rparr>"

definition envOneOfTwoRejected :: collaborators where
  "envOneOfTwoRejected =
     env0\<lparr>getNodeUsers := Inr [userZero],
          cnodeUserFindAll := (\<lambda>ws. Inr (map (\<lambda>w. (w, Number 10)) ws)),
          batchClockStatus := (\<lambda>_ ws. Inr (map (\<lambda>w. (w, Number 5)) ws)),
          queueAddError := (\<lambda>ps. if baseURL ps = Some ''s1''
                                   then Some (Error ''redis connection lost'') else None)\<rparr>"

text \<open>The first scenario of the spec: users 0, 24 and 48 (and user 1, of another slice), all
  replicas healthy, clock 10 on this node and on the secondaries.\<close>

definition scenarioUser :: "int \<Rightarrow> string \<Rightarrow> nodeUser" where
  "scenarioUser n w = \<lparr>user_id = n, wallet = Some w, primary = Some ''self'',
                        secondary1 = Some ''s1'', secondary2 = Some ''s2''\<rparr>"

definition envAllCaughtUp :: collaborators where
  "envAllCaughtUp =
     env0\<lparr>getNodeUsers := Inr [scenarioUser 0 ''0xA'', scenarioUser 24 ''0xB'', scenarioUser 48 ''0xC'',
                                scenarioUser 1 ''0xD''],
          cnodeUserFindAll := (\<lambda>ws. Inr (map (\<lambda>w. (w, Number 10)) ws)),
          batchClockStatus := (\<lambda>_ ws. Inr (map (\<lambda>w. (w, Number 10)) ws))\<rparr>"

section \<open>The slice and the operations that leave it alone\<close>

lemma andThen_frame:
  assumes "\<And>s. f (snd (m s)) = f s" and "\<And>x s. f (snd (g x s)) = f s"
  shows "f (snd (andThen m g st)) = f st"
  using assms by (simp add: andThen_def split: prod.splits sum.splits) (metis snd_conv)

lemma enqueueSync_begin_slice [simp]:
  "currentModuloSlice (snd (enqueueSync_begin env a st)) = currentModuloSlice st"
  by (simp add: enqueueSync_begin_def queue_add_def log_def Let_def
      split: option.splits prod.splits)

lemma enqueueSync_end_slice [simp]:
  "currentModuloSlice (snd (enqueueSync_end a p st)) = currentModuloSlice st"
  by (simp add: enqueueSync_end_def split: enqueueProgress.splits)

lemma enqueueSync_slice [simp]:
  "currentModuloSlice (snd (enqueueSync env a st)) = currentModuloSlice st"
  by (simp add: enqueueSync_def split: prod.splits) (metis enqueueSync_begin_slice enqueueSync_end_slice snd_conv)

lemma seedSync_slice [simp]:
  "currentModuloSlice (snd (seedSync env w a b st)) = currentModuloSlice st"
  by (simp add: seedSync_def)

lemma logReplicaSet_slice [simp]:
  "currentModuloSlice (snd (logReplicaSet u w old new st)) = currentModuloSlice st"
  by (simp add: logReplicaSet_def log_def)

lemma writeReplicaSet_slice [simp]:
  "currentModuloSlice (snd (writeReplicaSet env u ids st)) = currentModuloSlice st"
  by (simp add: writeReplicaSet_def updateReplicaSet_def split: option.splits)

lemma issueUpdateReplicaSetOp_try_slice:
  "currentModuloSlice (snd (issueUpdateReplicaSetOp_try env u w p s1 s2 un st)) = currentModuloSlice st"
  unfolding issueUpdateReplicaSetOp_try_def Let_def
  by (auto split: sum.splits prod.splits intro!: andThen_frame)

lemma issueUpdateReplicaSetOp_slice [simp]:
  "currentModuloSlice (issueUpdateReplicaSetOp env u w p s1 s2 un st) = currentModuloSlice st"
proof -
  have "currentModuloSlice (snd (issueUpdateReplicaSetOp_try env u w p s1 s2 un (log (LogIssueUpdateReplicaSetOp u w un) st)))
        = currentModuloSlice st"
    by (simp add: issueUpdateReplicaSetOp_try_slice log_def)
  then show ?thesis
    by (auto simp: issueUpdateReplicaSetOp_def split: prod.splits sum.splits)
qed

lemma issueUpdateReplicaSetOps_slice [simp]:
  "currentModuloSlice (issueUpdateReplicaSetOps env ops st) = currentModuloSlice st"
  unfolding issueUpdateReplicaSetOps_def
  by (induction ops arbitrary: st) simp_all

lemma issueSyncRequest_start_slice:
  "currentModuloSlice (snd (snd (issueSyncRequest_start env pc cm u acc))) = currentModuloSlice (snd (snd acc))"
  by (cases acc) (simp add: issueSyncRequest_start_def Let_def split: option.splits prod.splits,
      metis enqueueSync_begin_slice snd_conv)

lemma fold_start_slice:
  "currentModuloSlice (snd (snd (fold (issueSyncRequest_start env pc cm) us acc))) = currentModuloSlice (snd (snd acc))"
  by (induction us arbitrary: acc) (simp_all add: issueSyncRequest_start_slice)

lemma issueSyncRequest_resume_slice:
  "currentModuloSlice (snd (issueSyncRequest_resume c acc)) = currentModuloSlice (snd acc)"
  by (cases acc) (simp add: issueSyncRequest_resume_def split: prod.splits sum.splits,
      metis enqueueSync_end_slice snd_conv)

lemma fold_resume_slice:
  "currentModuloSlice (snd (fold issueSyncRequest_resume cs acc)) = currentModuloSlice (snd acc)"
  by (induction cs arbitrary: acc) (simp_all add: issueSyncRequest_resume_slice)

lemma issueSyncRequests_slice [simp]:
  "currentModuloSlice (snd (issueSyncRequests env us cm st)) = currentModuloSlice st"
proof (cases "getUserPrimaryClockValues env (map wallet us)")
  case (Inl e)
  then show ?thesis by (simp add: issueSyncRequests_def)
next
  case (Inr pc)
  obtain resp inFlight st' where f: "fold (issueSyncRequest_start env pc cm) us
      (\<lparr>numSyncRequestsRequired = 0, numSyncRequestsIssued = 0, syncRequestErrors = []\<rparr>, [], st) = (resp, inFlight, st')"
    by (metis prod_cases3)
  have 1: "currentModuloSlice st' = currentModuloSlice st"
    using fold_start_slice [of env pc cm us "(\<lparr>numSyncRequestsRequired = 0, numSyncRequestsIssued = 0, syncRequestErrors = []\<rparr>, [], st)"] f
    by simp
  have 2: "currentModuloSlice (snd (fold issueSyncRequest_resume inFlight (resp, st'))) = currentModuloSlice st'"
    using fold_resume_slice [of inFlight "(resp, st')"] by simp
  show ?thesis
    using Inr f 1 2 by (auto simp: issueSyncRequests_def split: prod.splits)
qed

lemma issueSyncRequests_stage_slice [simp]:
  "currentModuloSlice (snd (issueSyncRequests_stage env us cm tree st)) = currentModuloSlice st"
  by (simp add: issueSyncRequests_stage_def split: prod.splits sum.splits)
     (metis issueSyncRequests_slice snd_conv)

lemma try_slice:
  "currentModuloSlice (snd (processStateMachineOperation_try env tree st)) =
     (if isl (fst (fst (processStateMachineOperation_try env tree st)))
      then currentModuloSlice st else (currentModuloSlice st + 1) mod 24)"
proof -
  have stage: "\<And>us cm t r t' s'. issueSyncRequests_stage env us cm t st = ((r, t'), s') \<Longrightarrow>
      currentModuloSlice s' = currentModuloSlice st"
    by (metis issueSyncRequests_stage_slice snd_conv)
  show ?thesis
    unfolding processStateMachineOperation_try_def Let_def
    by (auto split: sum.splits prod.splits simp: advanceSlice_def ModuloBase_def dest: stage)
qed

lemma all_caught_up_completes:
  "\<not> isl (fst (fst (processStateMachineOperation_try envAllCaughtUp [''BEGIN processStateMachineOperation()''] st0)))"
  by (simp add: syncRequired_def js_not_def js_gt_def processStateMachineOperation_try_def
        envAllCaughtUp_def env0_def st0_def scenarioUser_def sliceUsers_def js_rem_def ModuloBase_def
        planNodeUser_def truthy_def withEndpoint_def withUnhealthyReplicas_def
        buildSecondaryNodesToUserWalletsMap_def js_key_def
        issueSyncRequests_stage_def issueSyncRequests_def getUserPrimaryClockValues_def
        issueSyncRequest_start_def issueSyncRequest_resume_def Let_def)

text \<open>
  In the first scenario of the spec nothing is enqueued, nothing is written to the registry
  and the slice moves from 0 to 1.
\<close>

lemma all_caught_up_iteration:
  "currentModuloSlice (processStateMachineOperation envAllCaughtUp st0) = 1
   \<and> waiting (recurringSyncQueue (processStateMachineOperation envAllCaughtUp st0)) = []
   \<and> waiting (manualSyncQueue (processStateMachineOperation envAllCaughtUp st0)) = []
   \<and> registryWrites (processStateMachineOperation envAllCaughtUp st0) = []"
  by (simp add: syncRequired_def js_not_def js_gt_def processStateMachineOperation_def processStateMachineOperation_try_def
        envAllCaughtUp_def env0_def st0_def scenarioUser_def sliceUsers_def js_rem_def ModuloBase_def
        planNodeUser_def truthy_def withEndpoint_def withUnhealthyReplicas_def
        buildSecondaryNodesToUserWalletsMap_def js_key_def
        issueSyncRequests_stage_def issueSyncRequests_def getUserPrimaryClockValues_def
        issueSyncRequest_start_def issueSyncRequest_resume_def recurringSyncParams_def
        enqueueSync_begin_def enqueueSync_end_def getDuplicateSyncJobInfo_def recordSync_def
        queue_add_def syncRequestParametersOf_def log_def Let_def
        issueUpdateReplicaSetOps_def issueUpdateReplicaSetOp_def issueUpdateReplicaSetOp_try_def
        writeReplicaSet_def advanceSlice_def)

text \<open>
  Claim C2, as the code has it. The slice is advanced at the end of the \<open>try\<close> block, so
  an iteration advances it exactly when it gets through every stage: then the new slice
  is \<open>(slice + 1) mod 24\<close>. An iteration that throws leaves the slice as it was; in
  particular one that cannot list the users, and one whose batched clock requests fail.
\<close>

theorem slice_after_iteration:
  "currentModuloSlice (processStateMachineOperation env st) =
     (if isl (fst (fst (processStateMachineOperation_try env [''BEGIN processStateMachineOperation()''] st)))
      then currentModuloSlice st else (currentModuloSlice st + 1) mod 24)
   \<and> ((\<exists>e. getNodeUsers env = Inl e) \<longrightarrow>
        currentModuloSlice (processStateMachineOperation env st) = currentModuloSlice st)
   \<and> (\<forall>users peers e.
         getNodeUsers env = Inr users \<and> getUnhealthyPeers env (sliceUsers st users) = Inr peers \<and>
         retrieveClockStatusesForSecondaryUsersFromNodes env
           (buildSecondaryNodesToUserWalletsMap
              (concat (map snd (map (planNodeUser env peers) (sliceUsers st users))))) = Inl e \<longrightarrow>
         currentModuloSlice (processStateMachineOperation env st) = currentModuloSlice st)"
proof -
  let ?t = "processStateMachineOperation_try env [''BEGIN processStateMachineOperation()''] st"
  have eq: "currentModuloSlice (processStateMachineOperation env st) = currentModuloSlice (snd ?t)"
    by (auto simp: processStateMachineOperation_def log_def split: prod.splits sum.splits)
  have 1: "currentModuloSlice (processStateMachineOperation env st) =
     (if isl (fst (fst ?t)) then currentModuloSlice st else (currentModuloSlice st + 1) mod 24)"
    using eq try_slice [of env "[''BEGIN processStateMachineOperation()'']" st] by simp
  have 2: "(\<exists>e. getNodeUsers env = Inl e) \<longrightarrow> isl (fst (fst ?t))"
    by (auto simp: processStateMachineOperation_try_def)
  have 3: "\<forall>users peers e.
         getNodeUsers env = Inr users \<and> getUnhealthyPeers env (sliceUsers st users) = Inr peers \<and>
         retrieveClockStatusesForSecondaryUsersFromNodes env
           (buildSecondaryNodesToUserWalletsMap
              (concat (map snd (map (planNodeUser env peers) (sliceUsers st users))))) = Inl e \<longrightarrow>
         isl (fst (fst ?t))"
    by (auto simp: processStateMachineOperation_try_def Let_def)
  show ?thesis using 1 2 3 by simp
qed

text \<open>
  Claim C2 as stated (the slice advances after every iteration, also one that aborts) fails
  when listing the users throws: the slice stays 5.
\<close>

theorem slice_counterexample:
  "currentModuloSlice (processStateMachineOperation envListUsersFails st5) \<noteq>
     (currentModuloSlice st5 + 1) mod 24"
  by (simp add: processStateMachineOperation_def processStateMachineOperation_try_def
        envListUsersFails_def env0_def st5_def st0_def log_def)

theorem slice_after_iteration_witness:
  "currentModuloSlice (processStateMachineOperation envListUsersFails st5) = 5 \<and>
   currentModuloSlice (processStateMachineOperation envAllCaughtUp st0) = 1"
proof -
  have a: "\<exists>e. getNodeUsers envListUsersFails = Inl e"
    by (simp add: envListUsersFails_def)
  have b: "\<not> isl (fst (fst (processStateMachineOperation_try envAllCaughtUp [''BEGIN processStateMachineOperation()''] st0)))"
    by (rule all_caught_up_completes)
  have c: "currentModuloSlice st5 = 5" by (simp add: st5_def)
  have d: "currentModuloSlice st0 = 0" by (simp add: st0_def)
  show ?thesis
    using slice_after_iteration [of envListUsersFails st5] slice_after_iteration [of envAllCaughtUp st0] a b c d
    by simp
qed

section \<open>What enqueueSync does to the queues and the de-duplicator\<close>

lemma enqueueSync_duplicate:
  assumes "syncDeDuplicator st (syncType a, userWallet a, secondaryEndpoint a) = Some h"
  shows "enqueueSync env a st =
           (Inr h, log (LogEnqueueSyncFailure (syncType a) (userWallet a) (secondaryEndpoint a)) st)"
  using assms
  by (simp add: enqueueSync_def enqueueSync_begin_def enqueueSync_end_def getDuplicateSyncJobInfo_def)

lemma enqueueSync_fresh_manual:
  assumes "syncType a = Manual"
    and "syncDeDuplicator st (Manual, userWallet a, secondaryEndpoint a) = None"
    and "queueAddError env (syncRequestParametersOf a) = None"
  shows "enqueueSync env a st =
           (Inr (newJob (manualSyncQueue st) a),
            st\<lparr>manualSyncQueue := (manualSyncQueue st)
                   \<lparr>waiting := waiting (manualSyncQueue st) @ [newJob (manualSyncQueue st) a],
                    jobCounter := jobCounter (manualSyncQueue st) + 1\<rparr>,
               syncDeDuplicator := (syncDeDuplicator st)
                   ((Manual, userWallet a, secondaryEndpoint a) \<mapsto> newJob (manualSyncQueue st) a)\<rparr>)"
  using assms
  by (simp add: enqueueSync_def enqueueSync_begin_def enqueueSync_end_def getDuplicateSyncJobInfo_def
        queue_add_def recordSync_def newJob_def Let_def)

lemma enqueueSync_fresh_recurring:
  assumes "syncType a = Recurring"
    and "syncDeDuplicator st (Recurring, userWallet a, secondaryEndpoint a) = None"
    and "queueAddError env (syncRequestParametersOf a) = None"
  shows "enqueueSync env a st =
           (Inr (newJob (recurringSyncQueue st) a),
            st\<lparr>recurringSyncQueue := (recurringSyncQueue st)
                   \<lparr>waiting := waiting (recurringSyncQueue st) @ [newJob (recurringSyncQueue st) a],
                    jobCounter := jobCounter (recurringSyncQueue st) + 1\<rparr>,
               syncDeDuplicator := (syncDeDuplicator st)
                   ((Recurring, userWallet a, secondaryEndpoint a) \<mapsto> newJob (recurringSyncQueue st) a)\<rparr>)"
  using assms
  by (simp add: enqueueSync_def enqueueSync_begin_def enqueueSync_end_def getDuplicateSyncJobInfo_def
        queue_add_def recordSync_def newJob_def Let_def)

lemma enqueueSync_fresh_records:
  assumes "syncDeDuplicator st (syncType a, userWallet a, secondaryEndpoint a) = None"
    and "queueAddError env (syncRequestParametersOf a) = None"
  shows "\<exists>j. fst (enqueueSync env a st) = Inr j \<and>
             syncDeDuplicator (snd (enqueueSync env a st)) (syncType a, userWallet a, secondaryEndpoint a) = Some j"
proof (cases "syncType a")
  case Recurring
  then show ?thesis using assms enqueueSync_fresh_recurring [of a st env] by simp
next
  case Manual
  then show ?thesis using assms enqueueSync_fresh_manual [of a st env] by simp
qed

text \<open>
  Claim C6. For a fingerprint the de-duplicator has a job for, \<open>enqueueSync\<close> returns that
  job and leaves both queues and the de-duplicator as they are. From a state where the
  fingerprint is not recorded (and the queue accepts the job), a first call returns a new
  job, and a second call right after it returns the same job and adds nothing to either
  queue.
\<close>

theorem enqueueSync_idempotent:
  assumes pending: "getDuplicateSyncJobInfo (syncDeDuplicator st) (syncType a) (userWallet a) (secondaryEndpoint a) = Some h"
    and fresh: "getDuplicateSyncJobInfo (syncDeDuplicator st') (syncType a) (userWallet a) (secondaryEndpoint a) = None"
    and ok: "queueAddError env (syncRequestParametersOf a) = None"
  shows "fst (enqueueSync env a st) = Inr h
       \<and> manualSyncQueue (snd (enqueueSync env a st)) = manualSyncQueue st
       \<and> recurringSyncQueue (snd (enqueueSync env a st)) = recurringSyncQueue st
       \<and> syncDeDuplicator (snd (enqueueSync env a st)) = syncDeDuplicator st
       \<and> (\<exists>j. fst (enqueueSync env a st') = Inr j
              \<and> fst (enqueueSync env a (snd (enqueueSync env a st'))) = Inr j
              \<and> manualSyncQueue (snd (enqueueSync env a (snd (enqueueSync env a st'))))
                   = manualSyncQueue (snd (enqueueSync env a st'))
              \<and> recurringSyncQueue (snd (enqueueSync env a (snd (enqueueSync env a st'))))
                   = recurringSyncQueue (snd (enqueueSync env a st')))"
proof -
  have p: "syncDeDuplicator st (syncType a, userWallet a, secondaryEndpoint a) = Some h"
    using pending by (simp add: getDuplicateSyncJobInfo_def)
  have f: "syncDeDuplicator st' (syncType a, userWallet a, secondaryEndpoint a) = None"
    using fresh by (simp add: getDuplicateSyncJobInfo_def)
  have 1: "enqueueSync env a st =
           (Inr h, log (LogEnqueueSyncFailure (syncType a) (userWallet a) (secondaryEndpoint a)) st)"
    by (rule enqueueSync_duplicate [OF p])
  obtain j where j: "fst (enqueueSync env a st') = Inr j"
     "syncDeDuplicator (snd (enqueueSync env a st')) (syncType a, userWallet a, secondaryEndpoint a) = Some j"
    using enqueueSync_fresh_records [OF f ok] by blast
  have 2: "enqueueSync env a (snd (enqueueSync env a st')) =
           (Inr j, log (LogEnqueueSyncFailure (syncType a) (userWallet a) (secondaryEndpoint a))
                     (snd (enqueueSync env a st')))"
    by (rule enqueueSync_duplicate [OF j(2)])
  show ?thesis
    using 1 2 j(1) by (simp add: log_def)
qed

theorem enqueueSync_idempotent_witness:
  "fst (enqueueSync env0 syncA st0) = Inr jobA
   \<and> fst (enqueueSync env0 syncA (snd (enqueueSync env0 syncA st0))) = Inr jobA
   \<and> waiting (recurringSyncQueue (snd (enqueueSync env0 syncA (snd (enqueueSync env0 syncA st0))))) = [jobA]
   \<and> waiting (manualSyncQueue (snd (enqueueSync env0 syncA (snd (enqueueSync env0 syncA st0))))) = []"
proof -
  have fresh: "getDuplicateSyncJobInfo (syncDeDuplicator st0) (syncType syncA) (userWallet syncA) (secondaryEndpoint syncA) = None"
    by (simp add: getDuplicateSyncJobInfo_def st0_def)
  have ok: "queueAddError env0 (syncRequestParametersOf syncA) = None"
    by (simp add: env0_def)
  have first: "enqueueSync env0 syncA st0 =
      (Inr jobA, st0\<lparr>recurringSyncQueue := \<lparr>waiting = [jobA], active = [], jobCounter = 1\<rparr>,
                    syncDeDuplicator := [(Recurring, Some ''0xA'', Some ''s1'') \<mapsto> jobA]\<rparr>)"
    by (simp add: enqueueSync_def enqueueSync_begin_def enqueueSync_end_def getDuplicateSyncJobInfo_def
          queue_add_def recordSync_def Let_def syncA_def jobA_def st0_def env0_def)
  have pending: "getDuplicateSyncJobInfo (syncDeDuplicator (snd (enqueueSync env0 syncA st0)))
      (syncType syncA) (userWallet syncA) (secondaryEndpoint syncA) = Some jobA"
    unfolding first by (simp add: getDuplicateSyncJobInfo_def syncA_def)
  show ?thesis
    using enqueueSync_idempotent [OF pending fresh ok] first
    by (simp add: st0_def)
qed

section \<open>Reconfiguration of a replica set\<close>

lemma log_simps [simp]:
  "currentModuloSlice (log l st) = currentModuloSlice st"
  "manualSyncQueue (log l st) = manualSyncQueue st"
  "recurringSyncQueue (log l st) = recurringSyncQueue st"
  "syncDeDuplicator (log l st) = syncDeDuplicator st"
  "registryWrites (log l st) = registryWrites st"
  "logged (log l st) = logged st @ [l]"
  by (simp_all add: log_def)

lemma seedSync_fresh:
  assumes "syncDeDuplicator st (Manual, w, tgt) = None"
    and "queueAddError env (syncRequestParametersOf
           \<lparr>userWallet = w, primaryEndpoint = src, secondaryEndpoint = tgt, syncType = Manual, immediate = True\<rparr>) = None"
  shows "seedSync env w src tgt st =
     (Inr \<lparr>jobId = jobCounter (manualSyncQueue st) + 1,
           jobData = \<lparr>baseURL = tgt, url = ''/sync'', method = ''post'', data_wallet = [w],
                      data_creator_node_endpoint = src, data_sync_type = Manual, data_immediate = True\<rparr>\<rparr>,
      st\<lparr>manualSyncQueue := (manualSyncQueue st)
             \<lparr>waiting := waiting (manualSyncQueue st) @
                  [\<lparr>jobId = jobCounter (manualSyncQueue st) + 1,
                    jobData = \<lparr>baseURL = tgt, url = ''/sync'', method = ''post'', data_wallet = [w],
                      data_creator_node_endpoint = src, data_sync_type = Manual, data_immediate = True\<rparr>\<rparr>],
              jobCounter := jobCounter (manualSyncQueue st) + 1\<rparr>,
         syncDeDuplicator := (syncDeDuplicator st)
             ((Manual, w, tgt) \<mapsto> \<lparr>jobId = jobCounter (manualSyncQueue st) + 1,
                    jobData = \<lparr>baseURL = tgt, url = ''/sync'', method = ''post'', data_wallet = [w],
                      data_creator_node_endpoint = src, data_sync_type = Manual, data_immediate = True\<rparr>\<rparr>)\<rparr>)"
  using assms
  by (simp add: seedSync_def enqueueSync_def enqueueSync_begin_def enqueueSync_end_def getDuplicateSyncJobInfo_def
        queue_add_def recordSync_def Let_def syncRequestParametersOf_def)

lemma seedSync_fresh_effect:
  assumes "syncDeDuplicator st (Manual, w, tgt) = None"
    and "\<And>ps. queueAddError env ps = None"
  shows "\<not> isl (fst (seedSync env w src tgt st))"
    and "waiting (manualSyncQueue (snd (seedSync env w src tgt st))) = waiting (manualSyncQueue st) @
           [\<lparr>jobId = jobCounter (manualSyncQueue st) + 1,
             jobData = \<lparr>baseURL = tgt, url = ''/sync'', method = ''post'', data_wallet = [w],
                        data_creator_node_endpoint = src, data_sync_type = Manual, data_immediate = True\<rparr>\<rparr>]"
    and "jobCounter (manualSyncQueue (snd (seedSync env w src tgt st))) = jobCounter (manualSyncQueue st) + 1"
    and "recurringSyncQueue (snd (seedSync env w src tgt st)) = recurringSyncQueue st"
    and "registryWrites (snd (seedSync env w src tgt st)) = registryWrites st"
    and "\<And>fp. fp \<noteq> (Manual, w, tgt) \<Longrightarrow>
           syncDeDuplicator (snd (seedSync env w src tgt st)) fp = syncDeDuplicator st fp"
  using seedSync_fresh [OF assms(1) assms(2), of src] by simp_all

lemma andThen_Inr:
  "\<not> isl (fst (m st)) \<Longrightarrow> andThen m (\<lambda>_. g) st = g (snd (m st))"
  by (cases "m st") (auto simp: andThen_def split: sum.splits)

text \<open>
  The calls the \<open>try\<close> block makes with one and with two healthy replicas, whatever is
  pending and whatever the queue and the registry answer: two seed syncs, the log line and
  the registry write, each made only if none before it threw.
\<close>

lemma one_healthy_replica_calls:
  assumes sel: "autoSelectCreatorNodes env [p, s1, s2] = Inr R"
    and one: "length (filter (\<lambda>replica. replica \<notin> set unhealthy) [p, s1, s2]) = 1"
  shows "issueUpdateReplicaSetOp_try env userId w p s1 s2 unhealthy st =
        andThen (seedSync env w p (rs_primary R)) (\<lambda>_.
        andThen (seedSync env w p (js_index (rs_secondaries R) 0)) (\<lambda>_.
        andThen (logReplicaSet userId w [p, s1, s2] [p, rs_primary R, js_index (rs_secondaries R) 0]) (\<lambda>_.
        updateReplicaSet env userId (endpointToSPIdMap env p)
          [endpointToSPIdMap env (rs_primary R), endpointToSPIdMap env (js_index (rs_secondaries R) 0)]))) st"
proof -
  have len: "length (filter (\<lambda>replica. replica \<notin> set unhealthy) [p, s1, s2]) \<noteq> 0"
    using one by simp
  have wr: "writeReplicaSet env userId (Some [a, b, c]) = updateReplicaSet env userId a [b, c]" for a b c
    by (rule ext) (simp add: writeReplicaSet_def js_index_def)
  show ?thesis
    using sel one len unfolding issueUpdateReplicaSetOp_try_def Let_def wr
    by (simp only: sum.case if_False if_True refl)
qed

lemma two_healthy_replicas_calls:
  assumes sel: "autoSelectCreatorNodes env [p, s1, s2] = Inr R"
    and two: "filter (\<lambda>replica. replica \<notin> set unhealthy) [p, s1, s2] = [h0, h1]"
    and fetched: "getClockValuesFromReplicaSet env = Inr clockResponses"
    and newPrimary: "newPrimary = (if js_ge (endpointToClockMapOf clockResponses (js_key h0))
                                         (endpointToClockMapOf clockResponses (js_key h1)) then h0 else h1)"
    and newSecondary: "newSecondary = (if js_ge (endpointToClockMapOf clockResponses (js_key h0))
                                         (endpointToClockMapOf clockResponses (js_key h1)) then h1 else h0)"
  shows "issueUpdateReplicaSetOp_try env userId w p s1 s2 unhealthy st =
        andThen (seedSync env w newPrimary newSecondary) (\<lambda>_.
        andThen (seedSync env w newPrimary (rs_primary R)) (\<lambda>_.
        andThen (logReplicaSet userId w [p, s1, s2] [newPrimary, newSecondary, rs_primary R]) (\<lambda>_.
        updateReplicaSet env userId (endpointToSPIdMap env newPrimary)
          [endpointToSPIdMap env newSecondary, endpointToSPIdMap env (rs_primary R)]))) st"
proof -
  have wr: "writeReplicaSet env userId (Some [a, b, c]) = updateReplicaSet env userId a [b, c]" for a b c
    by (rule ext) (simp add: writeReplicaSet_def js_index_def)
  show ?thesis
    unfolding issueUpdateReplicaSetOp_try_def Let_def two sel fetched wr
    by (simp add: js_index_def newPrimary newSecondary)
qed



text \<open>
  With exactly two healthy replicas \<open>h0\<close>, \<open>h1\<close> (in the order of the replica set) for
  both of which the fetched clocks convert to numbers \<open>c0\<close>, \<open>c1\<close>, the new primary is
  \<open>h0\<close> when \<open>c0 \<ge> c1\<close> (so a tie goes to the first) and \<open>h1\<close> otherwise, the other
  survivor is the first secondary and \<open>r0\<close> the second; the new primary's clock is at least
  the first secondary's; and exactly two jobs are added, both manual and immediate, from the
  new primary to the other survivor and to \<open>r0\<close>. The collaborators are assumed to answer,
  and no manual sync of the wallet to these targets to be pending already.
\<close>

lemma two_healthy_replicas_both_clocks:
  assumes sel: "autoSelectCreatorNodes env [p, s1, s2] = Inr R"
    and two: "filter (\<lambda>replica. replica \<notin> set unhealthy) [p, s1, s2] = [h0, h1]"
    and fetched: "getClockValuesFromReplicaSet env = Inr clockResponses"
    and c0: "toNumber (endpointToClockMapOf clockResponses (js_key h0)) = Some c0"
    and c1: "toNumber (endpointToClockMapOf clockResponses (js_key h1)) = Some c1"
    and newPrimary: "newPrimary = (if c1 \<le> c0 then h0 else h1)"
    and newSecondary: "newSecondary = (if c1 \<le> c0 then h1 else h0)"
    and r0: "r0 = rs_primary R"
    and fresh: "syncDeDuplicator st (Manual, w, h0) = None" "syncDeDuplicator st (Manual, w, h1) = None"
               "syncDeDuplicator st (Manual, w, r0) = None"
    and distinct: "r0 \<noteq> h0" "r0 \<noteq> h1"
    and queue: "\<forall>ps. queueAddError env ps = None"
    and registry: "\<forall>u a b. updateReplicaSetError env u a b = None"
    and st': "st' = issueUpdateReplicaSetOp env userId w p s1 s2 unhealthy st"
  shows "waiting (manualSyncQueue st') = waiting (manualSyncQueue st) @
           [\<lparr>jobId = jobCounter (manualSyncQueue st) + 1,
             jobData = \<lparr>baseURL = newSecondary, url = ''/sync'', method = ''post'', data_wallet = [w],
                        data_creator_node_endpoint = newPrimary, data_sync_type = Manual, data_immediate = True\<rparr>\<rparr>,
            \<lparr>jobId = jobCounter (manualSyncQueue st) + 2,
             jobData = \<lparr>baseURL = r0, url = ''/sync'', method = ''post'', data_wallet = [w],
                        data_creator_node_endpoint = newPrimary, data_sync_type = Manual, data_immediate = True\<rparr>\<rparr>]
       \<and> recurringSyncQueue st' = recurringSyncQueue st
       \<and> registryWrites st' = registryWrites st @
             [(userId, endpointToSPIdMap env newPrimary,
               [endpointToSPIdMap env newSecondary, endpointToSPIdMap env r0])]
       \<and> js_ge (endpointToClockMapOf clockResponses (js_key newPrimary))
                (endpointToClockMapOf clockResponses (js_key newSecondary))"
proof -
  define st1 where "st1 = log (LogIssueUpdateReplicaSetOp userId w unhealthy) st"
  define st2 where "st2 = snd (seedSync env w newPrimary newSecondary st1)"
  define st3 where "st3 = snd (seedSync env w newPrimary r0 st2)"
  have q: "\<And>ps. queueAddError env ps = None" using queue by simp
  have reg: "\<And>u a b. updateReplicaSetError env u a b = None" using registry by simp
  have f0: "syncDeDuplicator st1 (Manual, w, newSecondary) = None"
    using fresh by (simp add: st1_def newSecondary)
  note e0 = seedSync_fresh_effect [OF f0 q, where src = newPrimary, folded st2_def]
  have ne: "r0 \<noteq> newSecondary" using distinct by (simp add: newSecondary)
  have f1: "syncDeDuplicator st2 (Manual, w, r0) = None"
    using fresh ne e0(6) [of "(Manual, w, r0)"] by (simp add: st1_def)
  note e1 = seedSync_fresh_effect [OF f1 q, where src = newPrimary, folded st3_def]
  have body: "issueUpdateReplicaSetOp_try env userId w p s1 s2 unhealthy st1 =
        andThen (seedSync env w newPrimary newSecondary) (\<lambda>_.
        andThen (seedSync env w newPrimary r0) (\<lambda>_.
        andThen (logReplicaSet userId w [p, s1, s2] [newPrimary, newSecondary, r0]) (\<lambda>_.
        writeReplicaSet env userId (Some [endpointToSPIdMap env newPrimary,
           endpointToSPIdMap env newSecondary, endpointToSPIdMap env r0])))) st1"
    unfolding issueUpdateReplicaSetOp_try_def Let_def two sel fetched
    by (simp add: js_index_def r0 c0 c1 js_ge_def newPrimary newSecondary)
  have run: "issueUpdateReplicaSetOp_try env userId w p s1 s2 unhealthy st1 =
        (Inr (), (log (LogUpdatingReplicaSet userId w [p, s1, s2] [newPrimary, newSecondary, r0]) st3)
           \<lparr>registryWrites := registryWrites st3 @
               [(userId, endpointToSPIdMap env newPrimary,
                 [endpointToSPIdMap env newSecondary, endpointToSPIdMap env r0])]\<rparr>)"
    unfolding body
    by (simp add: andThen_Inr e0(1) e1(1) st2_def [symmetric] st3_def [symmetric])
       (simp add: andThen_def logReplicaSet_def writeReplicaSet_def updateReplicaSet_def reg js_index_def)
  have ge: "js_ge (endpointToClockMapOf clockResponses (js_key newPrimary))
                (endpointToClockMapOf clockResponses (js_key newSecondary))"
    by (simp add: newPrimary newSecondary c0 c1 js_ge_def)
  show ?thesis
    unfolding st' issueUpdateReplicaSetOp_def st1_def [symmetric] run
    using ge by (simp add: e1 e0) (simp add: st1_def)
qed



text \<open>
  Claim C4 at a missing clock. The replica set is \<open>[p, self, s2]\<close> and \<open>p\<close> is unhealthy,
  so the two survivors are this node and \<open>s2\<close>, in that order. The clock fetch answers 9
  for this node and has no entry for \<open>s2\<close>. The comparison \<open>9 >= undefined\<close> is false, so
  the \<open>else\<close> branch runs: \<open>s2\<close>, for which no clock was fetched, is written to the
  registry as the new primary (service provider 3), this node (service provider 1) as the
  first secondary, and both seed syncs take \<open>s2\<close> as their source. The clock of the new
  primary is not at least the clock of the new first secondary.
\<close>

theorem missing_clock_elects_other_survivor:
  "registryWrites (issueUpdateReplicaSetOp envNoClockForS2 1 (Some ''0xA'') (Some ''p'') (Some ''self'') (Some ''s2'')
      [Some ''p''] st0) = [(1, Some 3, [Some 1, Some 4])]
   \<and> waiting (manualSyncQueue (issueUpdateReplicaSetOp envNoClockForS2 1 (Some ''0xA'') (Some ''p'') (Some ''self'')
      (Some ''s2'') [Some ''p''] st0)) =
     [\<lparr>jobId = 1,
       jobData = \<lparr>baseURL = Some ''self'', url = ''/sync'', method = ''post'', data_wallet = [Some ''0xA''],
                  data_creator_node_endpoint = Some ''s2'', data_sync_type = Manual, data_immediate = True\<rparr>\<rparr>,
      \<lparr>jobId = 2,
       jobData = \<lparr>baseURL = Some ''r0'', url = ''/sync'', method = ''post'', data_wallet = [Some ''0xA''],
                  data_creator_node_endpoint = Some ''s2'', data_sync_type = Manual, data_immediate = True\<rparr>\<rparr>]
   \<and> getClockValuesFromReplicaSet envNoClockForS2 = Inr [(Some ''p'', Number 7), (Some ''self'', Number 9)]
   \<and> endpointToClockMapOf [(Some ''p'', Number 7), (Some ''self'', Number 9)] (js_key (Some ''self'')) = Number 9
   \<and> endpointToClockMapOf [(Some ''p'', Number 7), (Some ''self'', Number 9)] (js_key (Some ''s2'')) = Undefined
   \<and> endpointToSPIdMap envNoClockForS2 (Some ''s2'') = Some 3
   \<and> endpointToSPIdMap envNoClockForS2 (Some ''self'') = Some 1
   \<and> \<not> js_ge (endpointToClockMapOf [(Some ''p'', Number 7), (Some ''self'', Number 9)] (js_key (Some ''s2'')))
              (endpointToClockMapOf [(Some ''p'', Number 7), (Some ''self'', Number 9)] (js_key (Some ''self'')))"
  by (simp add: issueUpdateReplicaSetOp_def issueUpdateReplicaSetOp_try_def
        envNoClockForS2_def env0_def st0_def endpointToClockMapOf_def js_key_def js_ge_def
        andThen_def seedSync_def enqueueSync_def enqueueSync_begin_def enqueueSync_end_def
        getDuplicateSyncJobInfo_def recordSync_def queue_add_def syncRequestParametersOf_def
        logReplicaSet_def writeReplicaSet_def updateReplicaSet_def js_index_def log_def Let_def)


text \<open>
  Claim C10. A user handed over with an empty list of unhealthy replicas has three healthy
  replicas, so none of the three branches runs: no sync job is added to either queue,
  nothing is recorded in the de-duplicator and the registry is not written. (The list of
  new ids is still undefined when its first element is read, which throws; the empty
  \<open>catch\<close> block ends the call.) Only the first log line is written.
\<close>

theorem no_unhealthy_replicas_no_effect:
  "manualSyncQueue (issueUpdateReplicaSetOp env userId w p s1 s2 [] st) = manualSyncQueue st \<and>
   recurringSyncQueue (issueUpdateReplicaSetOp env userId w p s1 s2 [] st) = recurringSyncQueue st \<and>
   syncDeDuplicator (issueUpdateReplicaSetOp env userId w p s1 s2 [] st) = syncDeDuplicator st \<and>
   registryWrites (issueUpdateReplicaSetOp env userId w p s1 s2 [] st) = registryWrites st \<and>
   logged (issueUpdateReplicaSetOp env userId w p s1 s2 [] st) =
     logged st @ [LogIssueUpdateReplicaSetOp userId w []]"
  by (simp_all add: issueUpdateReplicaSetOp_def issueUpdateReplicaSetOp_try_def writeReplicaSet_def
        log_def Let_def split: sum.splits)

lemma plan_all_healthy:
  "set [primary u, secondary1 u, secondary2 u] \<inter> set unhealthyPeers = {} \<Longrightarrow>
   unhealthyReplicas (fst (planNodeUser env unhealthyPeers u)) = []"
  by (auto simp: planNodeUser_def withUnhealthyReplicas_def Let_def filter_empty_conv)

section \<open>The stage that issues the sync requests\<close>

lemma issueSyncRequests_stage_result:
  assumes "issueSyncRequests env potentialSyncRequests clockMap st = (Inr resp, st')"
  shows "(isl (fst (fst (issueSyncRequests_stage env potentialSyncRequests clockMap tree st))) \<longleftrightarrow>
            numSyncRequestsIssued resp < length (syncRequestErrors resp))
       \<and> (fst (issueSyncRequests_stage env potentialSyncRequests clockMap tree st) =
            (if numSyncRequestsIssued resp < length (syncRequestErrors resp)
             then (Inl (Error ''processStateMachineOperation():issueSyncRequests() Error''),
                   tree @ [''issueSyncRequests() Error''])
             else (Inr resp, tree @ [''issueSyncRequests() Success''])))"
  using assms by (simp add: issueSyncRequests_stage_def)

text \<open>
  Claim C9. Take an iteration of \<open>processStateMachineOperation\<close> in which the stages before
  the sync requests succeed and \<open>issueSyncRequests\<close> returns \<open>resp\<close>, leaving the state
  \<open>st'\<close>. The iteration raises exactly when \<open>syncRequestErrors\<close> is strictly longer than
  \<open>numSyncRequestsIssued\<close>. When it is, the error is the one of the sync stage, the decision
  tree ends with the stage's error and the iteration's error, no replica set is
  reconfigured and the slice stays: the state is \<open>st'\<close> with the decision tree logged. When
  it is not, equal numbers and two zeros included, the stage is recorded as a success, the
  replica-set updates run and the slice advances.
\<close>

theorem sync_stage_fails_iff:
  assumes users: "getNodeUsers env = Inr allNodeUsers"
    and peers: "getUnhealthyPeers env (sliceUsers st allNodeUsers) = Inr unhealthyPeers"
    and plans: "plans = map (planNodeUser env unhealthyPeers) (sliceUsers st allNodeUsers)"
    and clocks: "retrieveClockStatusesForSecondaryUsersFromNodes env
                   (buildSecondaryNodesToUserWalletsMap (concat (map snd plans))) = Inr clockMap"
    and returned: "issueSyncRequests env (concat (map snd plans)) clockMap st = (Inr resp, st')"
  shows "(isl (fst (fst (processStateMachineOperation_try env [''BEGIN processStateMachineOperation()''] st))) =
            (numSyncRequestsIssued resp < length (syncRequestErrors resp)))
       \<and> processStateMachineOperation_try env [''BEGIN processStateMachineOperation()''] st =
           (if numSyncRequestsIssued resp < length (syncRequestErrors resp)
            then ((Inl (Error ''processStateMachineOperation():issueSyncRequests() Error''),
                   [''BEGIN processStateMachineOperation()'',
                    ''getNodeUsers() and sliceUsers() Success'',
                    ''getUnhealthyPeers() Success'',
                    ''Build requiredUpdateReplicaSetOps and potentialSyncRequests arrays'',
                    ''buildSecondaryNodesToUserWalletsMap() Success'',
                    ''retrieveClockStatusesForSecondaryUsersFromNodes() Success'',
                    ''issueSyncRequests() Error'']), st')
            else ((Inr (),
                   [''BEGIN processStateMachineOperation()'',
                    ''getNodeUsers() and sliceUsers() Success'',
                    ''getUnhealthyPeers() Success'',
                    ''Build requiredUpdateReplicaSetOps and potentialSyncRequests arrays'',
                    ''buildSecondaryNodesToUserWalletsMap() Success'',
                    ''retrieveClockStatusesForSecondaryUsersFromNodes() Success'',
                    ''issueSyncRequests() Success'',
                    ''issueUpdateReplicaSetOp() Success'',
                    ''END processStateMachineOperation()'']),
                  advanceSlice (issueUpdateReplicaSetOps env (map fst plans) st')))
       \<and> processStateMachineOperation env st =
           (if numSyncRequestsIssued resp < length (syncRequestErrors resp)
            then log (LogDecisionTree
                   [''BEGIN processStateMachineOperation()'',
                    ''getNodeUsers() and sliceUsers() Success'',
                    ''getUnhealthyPeers() Success'',
                    ''Build requiredUpdateReplicaSetOps and potentialSyncRequests arrays'',
                    ''buildSecondaryNodesToUserWalletsMap() Success'',
                    ''retrieveClockStatusesForSecondaryUsersFromNodes() Success'',
                    ''issueSyncRequests() Error'',
                    ''processStateMachineOperation Error'']) st'
            else log (LogDecisionTree
                   [''BEGIN processStateMachineOperation()'',
                    ''getNodeUsers() and sliceUsers() Success'',
                    ''getUnhealthyPeers() Success'',
                    ''Build requiredUpdateReplicaSetOps and potentialSyncRequests arrays'',
                    ''buildSecondaryNodesToUserWalletsMap() Success'',
                    ''retrieveClockStatusesForSecondaryUsersFromNodes() Success'',
                    ''issueSyncRequests() Success'',
                    ''issueUpdateReplicaSetOp() Success'',
                    ''END processStateMachineOperation()''])
                   (advanceSlice (issueUpdateReplicaSetOps env (map fst plans) st')))"
proof -
  let ?tree = "[''BEGIN processStateMachineOperation()'',
                ''getNodeUsers() and sliceUsers() Success'',
                ''getUnhealthyPeers() Success'',
                ''Build requiredUpdateReplicaSetOps and potentialSyncRequests arrays'',
                ''buildSecondaryNodesToUserWalletsMap() Success'',
                ''retrieveClockStatusesForSecondaryUsersFromNodes() Success'']"
  have stage: "issueSyncRequests_stage env (concat (map snd plans)) clockMap ?tree st =
      (if numSyncRequestsIssued resp < length (syncRequestErrors resp)
       then ((Inl (Error ''processStateMachineOperation():issueSyncRequests() Error''),
              ?tree @ [''issueSyncRequests() Error'']), st')
       else ((Inr resp, ?tree @ [''issueSyncRequests() Success'']), st'))"
    using returned by (simp add: issueSyncRequests_stage_def)
  have body: "processStateMachineOperation_try env [''BEGIN processStateMachineOperation()''] st =
      (case issueSyncRequests_stage env (concat (map snd plans)) clockMap ?tree st of
         ((Inl e, tree3), s) \<Rightarrow> ((Inl e, tree3), s)
       | ((Inr r, tree3), s) \<Rightarrow>
           ((Inr (), tree3 @ [''issueUpdateReplicaSetOp() Success'', ''END processStateMachineOperation()'']),
            advanceSlice (issueUpdateReplicaSetOps env (map fst plans) s)))"
    unfolding processStateMachineOperation_try_def Let_def users sum.case peers plans [symmetric] clocks
    by simp
  have run: "processStateMachineOperation_try env [''BEGIN processStateMachineOperation()''] st =
           (if numSyncRequestsIssued resp < length (syncRequestErrors resp)
            then ((Inl (Error ''processStateMachineOperation():issueSyncRequests() Error''),
                   ?tree @ [''issueSyncRequests() Error'']), st')
            else ((Inr (), ?tree @ [''issueSyncRequests() Success'', ''issueUpdateReplicaSetOp() Success'',
                                    ''END processStateMachineOperation()'']),
                  advanceSlice (issueUpdateReplicaSetOps env (map fst plans) st')))"
    unfolding body stage by simp
  show ?thesis
    unfolding processStateMachineOperation_def run by simp
qed

theorem sync_stage_fails_iff_witness:
  "processStateMachineOperation envRecurringQueueDown st0 =
     log (LogDecisionTree
            [''BEGIN processStateMachineOperation()'',
             ''getNodeUsers() and sliceUsers() Success'',
             ''getUnhealthyPeers() Success'',
             ''Build requiredUpdateReplicaSetOps and potentialSyncRequests arrays'',
             ''buildSecondaryNodesToUserWalletsMap() Success'',
             ''retrieveClockStatusesForSecondaryUsersFromNodes() Success'',
             ''issueSyncRequests() Error'',
             ''processStateMachineOperation Error'']) st0
   \<and> \<not> isl (fst (fst (processStateMachineOperation_try envOneOfTwoRejected
                          [''BEGIN processStateMachineOperation()''] st0)))
   \<and> currentModuloSlice (processStateMachineOperation envOneOfTwoRejected st0) = 1
   \<and> \<not> isl (fst (fst (processStateMachineOperation_try envAllCaughtUp
                          [''BEGIN processStateMachineOperation()''] st0)))
   \<and> currentModuloSlice (processStateMachineOperation envAllCaughtUp st0) = 1"
proof -
  note defs = syncRequired_def js_not_def js_gt_def toNumber.simps
        env0_def st0_def userZero_def scenarioUser_def sliceUsers_def js_rem_def ModuloBase_def
        planNodeUser_def truthy_def withEndpoint_def withUnhealthyReplicas_def
        buildSecondaryNodesToUserWalletsMap_def js_key_def
        issueSyncRequests_def getUserPrimaryClockValues_def
        issueSyncRequest_start_def issueSyncRequest_resume_def recurringSyncParams_def
        enqueueSync_begin_def enqueueSync_end_def getDuplicateSyncJobInfo_def recordSync_def
        queue_add_def syncRequestParametersOf_def Let_def
  \<comment> \<open>one error, nothing issued\<close>
  define cm1 where "cm1 = (case retrieveClockStatusesForSecondaryUsersFromNodes envRecurringQueueDown
       (buildSecondaryNodesToUserWalletsMap (concat (map snd (map (planNodeUser envRecurringQueueDown [Some ''s2''])
          (sliceUsers st0 [userZero]))))) of Inr m \<Rightarrow> m)"
  have u1: "getNodeUsers envRecurringQueueDown = Inr [userZero]"
    by (simp add: envRecurringQueueDown_def)
  have p1: "getUnhealthyPeers envRecurringQueueDown (sliceUsers st0 [userZero]) = Inr [Some ''s2'']"
    by (simp add: envRecurringQueueDown_def)
  have c1: "retrieveClockStatusesForSecondaryUsersFromNodes envRecurringQueueDown
       (buildSecondaryNodesToUserWalletsMap (concat (map snd (map (planNodeUser envRecurringQueueDown [Some ''s2''])
          (sliceUsers st0 [userZero]))))) = Inr cm1"
    unfolding cm1_def by (simp add: envRecurringQueueDown_def defs)
  have r1: "issueSyncRequests envRecurringQueueDown
       (concat (map snd (map (planNodeUser envRecurringQueueDown [Some ''s2'']) (sliceUsers st0 [userZero])))) cm1 st0 =
     (Inr \<lparr>numSyncRequestsRequired = 1, numSyncRequestsIssued = 0,
           syncRequestErrors = [Error ''redis connection lost'']\<rparr>, st0)"
    unfolding cm1_def by (simp add: envRecurringQueueDown_def defs)
  have a: "processStateMachineOperation envRecurringQueueDown st0 =
     log (LogDecisionTree
            [''BEGIN processStateMachineOperation()'',
             ''getNodeUsers() and sliceUsers() Success'',
             ''getUnhealthyPeers() Success'',
             ''Build requiredUpdateReplicaSetOps and potentialSyncRequests arrays'',
             ''buildSecondaryNodesToUserWalletsMap() Success'',
             ''retrieveClockStatusesForSecondaryUsersFromNodes() Success'',
             ''issueSyncRequests() Error'',
             ''processStateMachineOperation Error'']) st0"
    using sync_stage_fails_iff [OF u1 p1 refl c1 r1] by simp
  \<comment> \<open>one error, one issued\<close>
  define cm2 where "cm2 = (case retrieveClockStatusesForSecondaryUsersFromNodes envOneOfTwoRejected
       (buildSecondaryNodesToUserWalletsMap (concat (map snd (map (planNodeUser envOneOfTwoRejected [])
          (sliceUsers st0 [userZero]))))) of Inr m \<Rightarrow> m)"
  define st2 where "st2 = snd (issueSyncRequests envOneOfTwoRejected
       (concat (map snd (map (planNodeUser envOneOfTwoRejected []) (sliceUsers st0 [userZero])))) cm2 st0)"
  have u2: "getNodeUsers envOneOfTwoRejected = Inr [userZero]"
    by (simp add: envOneOfTwoRejected_def)
  have p2: "getUnhealthyPeers envOneOfTwoRejected (sliceUsers st0 [userZero]) = Inr []"
    by (simp add: envOneOfTwoRejected_def env0_def)
  have c2: "retrieveClockStatusesForSecondaryUsersFromNodes envOneOfTwoRejected
       (buildSecondaryNodesToUserWalletsMap (concat (map snd (map (planNodeUser envOneOfTwoRejected [])
          (sliceUsers st0 [userZero]))))) = Inr cm2"
    unfolding cm2_def by (simp add: envOneOfTwoRejected_def defs)
  have r2: "issueSyncRequests envOneOfTwoRejected
       (concat (map snd (map (planNodeUser envOneOfTwoRejected []) (sliceUsers st0 [userZero])))) cm2 st0 =
     (Inr \<lparr>numSyncRequestsRequired = 2, numSyncRequestsIssued = 1,
           syncRequestErrors = [Error ''redis connection lost'']\<rparr>, st2)"
    unfolding st2_def cm2_def by (simp add: envOneOfTwoRejected_def defs)
  note s2 = sync_stage_fails_iff [OF u2 p2 refl c2 r2]
  have b: "\<not> isl (fst (fst (processStateMachineOperation_try envOneOfTwoRejected
                          [''BEGIN processStateMachineOperation()''] st0)))"
    using s2 [THEN conjunct1] by simp
  have b': "currentModuloSlice (processStateMachineOperation envOneOfTwoRejected st0) = 1"
    using s2 [THEN conjunct2, THEN conjunct2] st2_def
    by (simp add: advanceSlice_def log_def ModuloBase_def st0_def)
  \<comment> \<open>no error, nothing issued\<close>
  define cm3 where "cm3 = (case retrieveClockStatusesForSecondaryUsersFromNodes envAllCaughtUp
       (buildSecondaryNodesToUserWalletsMap (concat (map snd (map (planNodeUser envAllCaughtUp [])
          (sliceUsers st0 [scenarioUser 0 ''0xA'', scenarioUser 24 ''0xB'', scenarioUser 48 ''0xC'',
                           scenarioUser 1 ''0xD'']))))) of Inr m \<Rightarrow> m)"
  have u3: "getNodeUsers envAllCaughtUp = Inr [scenarioUser 0 ''0xA'', scenarioUser 24 ''0xB'',
                                               scenarioUser 48 ''0xC'', scenarioUser 1 ''0xD'']"
    by (simp add: envAllCaughtUp_def)
  have p3: "getUnhealthyPeers envAllCaughtUp (sliceUsers st0 [scenarioUser 0 ''0xA'', scenarioUser 24 ''0xB'',
                                               scenarioUser 48 ''0xC'', scenarioUser 1 ''0xD'']) = Inr []"
    by (simp add: envAllCaughtUp_def env0_def)
  have c3: "retrieveClockStatusesForSecondaryUsersFromNodes envAllCaughtUp
       (buildSecondaryNodesToUserWalletsMap (concat (map snd (map (planNodeUser envAllCaughtUp [])
          (sliceUsers st0 [scenarioUser 0 ''0xA'', scenarioUser 24 ''0xB'', scenarioUser 48 ''0xC'',
                           scenarioUser 1 ''0xD''])))))= Inr cm3"
    unfolding cm3_def by (simp add: envAllCaughtUp_def defs)
  have r3: "issueSyncRequests envAllCaughtUp
       (concat (map snd (map (planNodeUser envAllCaughtUp [])
          (sliceUsers st0 [scenarioUser 0 ''0xA'', scenarioUser 24 ''0xB'', scenarioUser 48 ''0xC'',
                           scenarioUser 1 ''0xD''])))) cm3 st0 =
     (Inr \<lparr>numSyncRequestsRequired = 0, numSyncRequestsIssued = 0, syncRequestErrors = []\<rparr>, st0)"
    unfolding cm3_def by (simp add: envAllCaughtUp_def defs)
  note s3 = sync_stage_fails_iff [OF u3 p3 refl c3 r3]
  have c: "\<not> isl (fst (fst (processStateMachineOperation_try envAllCaughtUp
                          [''BEGIN processStateMachineOperation()''] st0)))"
    using s3 [THEN conjunct1] by simp
  have c': "currentModuloSlice (processStateMachineOperation envAllCaughtUp st0) = 1"
    using s3 [THEN conjunct2, THEN conjunct2]
    by (simp add: advanceSlice_def log_def ModuloBase_def st0_def)
  show ?thesis using a b b' c c' by simp
qed


lemma syncRequired_iff:
  "syncRequired p s \<longleftrightarrow>
     s = Undefined \<or> s = Null \<or> s = Number 0 \<or> (\<exists>x y. toNumber p = Some x \<and> toNumber s = Some y \<and> y < x)"
  by (auto simp: syncRequired_def js_not_def js_gt_def split: option.splits clock.splits)

text \<open>
  What \<open>issueSyncRequests\<close> does for one user and secondary, as the code decides it: a
  recurring job from this node to the secondary is added exactly when \<open>syncRequired\<close>
  holds, that is when the secondary's clock is missing, null or 0, or smaller than the
  primary's.
\<close>

lemma issueSyncRequests_one_user:
  assumes primaryClocks: "getUserPrimaryClockValues env [wallet user] = Inr userPrimaryClockValues"
    and secondaryClocks: "secondaryNodesToUserClockStatusesMap (js_key (endpoint user)) = Some secondaryClocks"
    and fresh: "syncDeDuplicator st (Recurring, wallet user, endpoint user) = None"
    and queue: "\<And>ps. queueAddError env ps = None"
  shows "waiting (recurringSyncQueue (snd (issueSyncRequests env [user] secondaryNodesToUserClockStatusesMap st))) =
           waiting (recurringSyncQueue st) @
           (if syncRequired (userPrimaryClockValues (js_key (wallet user))) (secondaryClocks (js_key (wallet user)))
            then [\<lparr>jobId = jobCounter (recurringSyncQueue st) + 1,
                   jobData = \<lparr>baseURL = endpoint user, url = ''/sync'', method = ''post'',
                              data_wallet = [wallet user],
                              data_creator_node_endpoint = creatorNodeEndpoint env,
                              data_sync_type = Recurring, data_immediate = False\<rparr>\<rparr>]
            else [])
         \<and> waiting (manualSyncQueue (snd (issueSyncRequests env [user] secondaryNodesToUserClockStatusesMap st))) =
           waiting (manualSyncQueue st)"
  using assms
  by (simp add: issueSyncRequests_def issueSyncRequest_start_def issueSyncRequest_resume_def
        recurringSyncParams_def enqueueSync_begin_def enqueueSync_end_def getDuplicateSyncJobInfo_def
        queue_add_def syncRequestParametersOf_def Let_def)

text \<open>
  Claim C1 at equal clocks of 0. A user of slice 0 whose primary is this node has clock 0
  here and clock 0 on both healthy secondaries; the iteration puts a recurring sync to each
  of them on the queue, because \<open>!userSecondaryClockVal\<close> is true for 0 as it is for a
  missing clock.
\<close>

theorem equal_zero_clocks_sync_enqueued:
  "syncRequired (Number 0) (Number 0)
   \<and> waiting (recurringSyncQueue (processStateMachineOperation envZeroClocks st0)) =
       [\<lparr>jobId = 1,
         jobData = \<lparr>baseURL = Some ''s1'', url = ''/sync'', method = ''post'', data_wallet = [Some ''0xA''],
                    data_creator_node_endpoint = Some ''self'', data_sync_type = Recurring,
                    data_immediate = False\<rparr>\<rparr>,
        \<lparr>jobId = 2,
         jobData = \<lparr>baseURL = Some ''s2'', url = ''/sync'', method = ''post'', data_wallet = [Some ''0xA''],
                    data_creator_node_endpoint = Some ''self'', data_sync_type = Recurring,
                    data_immediate = False\<rparr>\<rparr>]"
  by (simp add: syncRequired_def js_not_def processStateMachineOperation_def processStateMachineOperation_try_def
        envZeroClocks_def env0_def st0_def userZero_def sliceUsers_def js_rem_def ModuloBase_def
        planNodeUser_def truthy_def withEndpoint_def withUnhealthyReplicas_def
        buildSecondaryNodesToUserWalletsMap_def js_key_def
        issueSyncRequests_stage_def issueSyncRequests_def getUserPrimaryClockValues_def
        issueSyncRequest_start_def issueSyncRequest_resume_def recurringSyncParams_def
        enqueueSync_begin_def enqueueSync_end_def getDuplicateSyncJobInfo_def recordSync_def
        queue_add_def syncRequestParametersOf_def log_def Let_def
        issueUpdateReplicaSetOps_def issueUpdateReplicaSetOp_def issueUpdateReplicaSetOp_try_def
        writeReplicaSet_def advanceSlice_def)

section \<open>Overlapping calls of enqueueSync\<close>

text \<open>
  Claim C3 when two calls of \<open>enqueueSync\<close> for one fingerprint overlap. The second call
  checks the de-duplicator before the first has recorded its job, so both add a job: two
  jobs of the same fingerprint wait in the recurring queue. The same happens inside one
  call of \<open>issueSyncRequests\<close> given two entries with the same wallet and endpoint, and
  so in an iteration for which the list of users names a user twice (here with clock 10 on
  this node and 5 on the secondaries).
\<close>

theorem overlapping_enqueues_two_pending:
  "pendingJobs (Recurring, Some ''0xA'', Some ''s1'')
     (snd (enqueueSync_begin env0 syncA (snd (enqueueSync_begin env0 syncA st0)))) =
     [\<lparr>jobId = 1, jobData = syncRequestParametersOf syncA\<rparr>,
      \<lparr>jobId = 2, jobData = syncRequestParametersOf syncA\<rparr>]
   \<and> pendingJobs (Recurring, Some ''0xA'', Some ''s1'')
        (snd (issueSyncRequests env0 [userA_s1, userA_s1] noClocksOnS1 st0)) =
     [\<lparr>jobId = 1, jobData = syncRequestParametersOf syncA\<rparr>,
      \<lparr>jobId = 2, jobData = syncRequestParametersOf syncA\<rparr>]
   \<and> pendingJobs (Recurring, Some ''0xA'', Some ''s1'') (processStateMachineOperation envDuplicateUser st0) =
     [\<lparr>jobId = 1, jobData = syncRequestParametersOf syncA\<rparr>,
      \<lparr>jobId = 3, jobData = syncRequestParametersOf syncA\<rparr>]"
  by (simp add: pendingJobs_def fingerprintOf_def js_index_def syncA_def
        syncRequired_def js_not_def js_gt_def processStateMachineOperation_def processStateMachineOperation_try_def
        envDuplicateUser_def env0_def st0_def userZero_def userA_s1_def noClocksOnS1_def
        sliceUsers_def js_rem_def ModuloBase_def
        planNodeUser_def truthy_def withEndpoint_def withUnhealthyReplicas_def
        buildSecondaryNodesToUserWalletsMap_def js_key_def
        issueSyncRequests_stage_def issueSyncRequests_def getUserPrimaryClockValues_def
        issueSyncRequest_start_def issueSyncRequest_resume_def recurringSyncParams_def
        enqueueSync_begin_def enqueueSync_end_def getDuplicateSyncJobInfo_def recordSync_def
        queue_add_def syncRequestParametersOf_def log_def Let_def
        issueUpdateReplicaSetOps_def issueUpdateReplicaSetOp_def issueUpdateReplicaSetOp_try_def
        writeReplicaSet_def advanceSlice_def)

section \<open>Calls of enqueueSync that do not overlap\<close>

lemma singlePending_cong:
  assumes "waiting (manualSyncQueue st') = waiting (manualSyncQueue st)"
    and "waiting (recurringSyncQueue st') = waiting (recurringSyncQueue st)"
    and "syncDeDuplicator st' = syncDeDuplicator st"
  shows "singlePending st' = singlePending st"
  using assms by (simp add: singlePending_def pendingJobs_def)

lemma singlePending_log [simp]: "singlePending (log l st) = singlePending st"
  by (rule singlePending_cong) simp_all

lemma singlePending_logged [simp]: "singlePending (st\<lparr>logged := x\<rparr>) = singlePending st"
  by (rule singlePending_cong) simp_all

lemma fingerprintOf_newJob [simp]:
  "fingerprintOf (newJob q a) = (syncType a, userWallet a, secondaryEndpoint a)"
  by (simp add: fingerprintOf_def newJob_def syncRequestParametersOf_def js_index_def)

lemma sync_type_newJob [simp]:
  "data_sync_type (jobData (newJob q a)) = syncType a"
  by (simp add: newJob_def syncRequestParametersOf_def)

lemma enqueueSync_rejected:
  assumes "syncDeDuplicator st (syncType a, userWallet a, secondaryEndpoint a) = None"
    and "queueAddError env (syncRequestParametersOf a) = Some e"
  shows "enqueueSync env a st = (Inl e, st)"
  using assms
  by (simp add: enqueueSync_def enqueueSync_begin_def enqueueSync_end_def getDuplicateSyncJobInfo_def)

lemma singlePending_unrecorded:
  assumes "singlePending st" and "syncDeDuplicator st fp = None"
  shows "pendingJobs fp st = []"
proof -
  have "length (pendingJobs fp st) \<le> 1 \<and> (length (pendingJobs fp st) = 1 \<longrightarrow> syncDeDuplicator st fp \<noteq> None)"
    using assms(1) unfolding singlePending_def by blast
  then have "length (pendingJobs fp st) = 0"
    using assms(2) by linarith
  then show ?thesis by simp
qed

lemma enqueueSync_singlePending:
  assumes inv: "singlePending st"
  shows "singlePending (snd (enqueueSync env a st))"
proof (cases "syncDeDuplicator st (syncType a, userWallet a, secondaryEndpoint a)")
  case (Some h)
  then show ?thesis using inv by (simp add: enqueueSync_duplicate)
next
  case None
  note fresh = None
  have empty: "pendingJobs (syncType a, userWallet a, secondaryEndpoint a) st = []"
    by (rule singlePending_unrecorded [OF inv fresh])
  show ?thesis
  proof (cases "queueAddError env (syncRequestParametersOf a)")
    case (Some e)
    then show ?thesis using inv fresh by (simp add: enqueueSync_rejected)
  next
    case None
    show ?thesis
    proof (cases "syncType a")
      case Manual
      have f: "syncDeDuplicator st (Manual, userWallet a, secondaryEndpoint a) = None"
        using fresh Manual by simp
      have e: "pendingJobs (Manual, userWallet a, secondaryEndpoint a) st = []"
        using empty Manual by simp
      show ?thesis
        unfolding enqueueSync_fresh_manual [OF Manual f None]
        using inv e Manual
        by (auto simp: singlePending_def pendingJobs_def)
    next
      case Recurring
      have f: "syncDeDuplicator st (Recurring, userWallet a, secondaryEndpoint a) = None"
        using fresh Recurring by simp
      have e: "pendingJobs (Recurring, userWallet a, secondaryEndpoint a) st = []"
        using empty Recurring by simp
      show ?thesis
        unfolding enqueueSync_fresh_recurring [OF Recurring f None]
        using inv e Recurring
        by (auto simp: singlePending_def pendingJobs_def)
    qed
  qed
qed


lemma andThen_singlePending:
  assumes "\<And>s. singlePending s \<Longrightarrow> singlePending (snd (m s))"
    and "\<And>x s. singlePending s \<Longrightarrow> singlePending (snd (g x s))"
    and "singlePending st"
  shows "singlePending (snd (andThen m g st))"
proof (cases "m st")
  case (Pair r s')
  have "singlePending s'" using assms(1) [OF assms(3)] Pair by simp
  then show ?thesis
    using Pair assms(2) by (cases r) (auto simp: andThen_def)
qed

lemma seedSync_singlePending:
  "singlePending st \<Longrightarrow> singlePending (snd (seedSync env w src tgt st))"
  by (simp add: seedSync_def enqueueSync_singlePending)

lemma logReplicaSet_singlePending:
  "singlePending st \<Longrightarrow> singlePending (snd (logReplicaSet u w old new st))"
  by (simp add: logReplicaSet_def)

lemma writeReplicaSet_singlePending:
  "singlePending st \<Longrightarrow> singlePending (snd (writeReplicaSet env u ids st))"
proof -
  have "singlePending (st\<lparr>registryWrites := x\<rparr>) = singlePending st" for x
    by (rule singlePending_cong) simp_all
  then show "singlePending st \<Longrightarrow> singlePending (snd (writeReplicaSet env u ids st))"
    by (simp add: writeReplicaSet_def updateReplicaSet_def split: option.splits)
qed

lemma issueUpdateReplicaSetOp_try_singlePending:
  "singlePending st \<Longrightarrow> singlePending (snd (issueUpdateReplicaSetOp_try env u w p s1 s2 un st))"
  unfolding issueUpdateReplicaSetOp_try_def Let_def
  by (auto split: sum.splits prod.splits
        intro!: andThen_singlePending seedSync_singlePending logReplicaSet_singlePending
                writeReplicaSet_singlePending)

lemma issueUpdateReplicaSetOp_singlePending:
  assumes "singlePending st"
  shows "singlePending (issueUpdateReplicaSetOp env u w p s1 s2 un st)"
proof -
  have "singlePending (snd (issueUpdateReplicaSetOp_try env u w p s1 s2 un (log (LogIssueUpdateReplicaSetOp u w un) st)))"
    using assms by (simp add: issueUpdateReplicaSetOp_try_singlePending)
  then show ?thesis
    by (auto simp: issueUpdateReplicaSetOp_def split: prod.splits sum.splits)
qed

lemma processSyncOperation_singlePending:
  assumes "singlePending (st\<lparr>syncDeDuplicator :=
             removeSync (syncDeDuplicator st) ty (js_index (data_wallet (jobData j)) 0) (baseURL (jobData j))\<rparr>)"
  shows "singlePending (snd (processSyncOperation env j ty start st))"
  using assms unfolding processSyncOperation_def Let_def
  by (auto split: sum.splits option.splits prod.splits
        intro!: andThen_singlePending enqueueSync_singlePending)


lemma taken_job_singlePending:
  assumes inv: "singlePending st" and w: "waiting (syncQueue ty st) = j # js"
  shows "singlePending
           ((setSyncQueue ty ((syncQueue ty st)\<lparr>waiting := js, active := active (syncQueue ty st) @ [j]\<rparr>) st)
              \<lparr>syncDeDuplicator :=
                 removeSync (syncDeDuplicator st) ty (js_index (data_wallet (jobData j)) 0) (baseURL (jobData j))\<rparr>)"
    (is "singlePending ?st'")
proof -
  have bound: "\<And>fp. length (pendingJobs fp st) \<le> 1"
    and recorded: "\<And>fp. length (pendingJobs fp st) = 1 \<Longrightarrow> syncDeDuplicator st fp \<noteq> None"
    and manual: "list_all (\<lambda>j. data_sync_type (jobData j) = Manual) (waiting (manualSyncQueue st))"
    and recurring: "list_all (\<lambda>j. data_sync_type (jobData j) = Recurring) (waiting (recurringSyncQueue st))"
    using inv unfolding singlePending_def by blast+
  have typed: "data_sync_type (jobData j) = ty"
    using manual recurring w by (cases ty) (auto simp: syncQueue_def)
  have fpj: "fingerprintOf j = (ty, js_index (data_wallet (jobData j)) 0, baseURL (jobData j))"
    using typed by (simp add: fingerprintOf_def)
  have count: "length (pendingJobs fp st) = (if fingerprintOf j = fp then 1 else 0) + length (pendingJobs fp ?st')" for fp
    using w by (cases ty) (auto simp: pendingJobs_def syncQueue_def setSyncQueue_def)
  have manual': "list_all (\<lambda>j. data_sync_type (jobData j) = Manual) (waiting (manualSyncQueue ?st'))"
    using manual w by (cases ty) (auto simp: syncQueue_def setSyncQueue_def)
  have recurring': "list_all (\<lambda>j. data_sync_type (jobData j) = Recurring) (waiting (recurringSyncQueue ?st'))"
    using recurring w by (cases ty) (auto simp: syncQueue_def setSyncQueue_def)
  have bound': "length (pendingJobs fp ?st') \<le> 1" for fp
    using bound [of fp] count [of fp] by linarith
  have recorded': "syncDeDuplicator ?st' fp \<noteq> None" if one: "length (pendingJobs fp ?st') = 1" for fp
  proof -
    have ne: "fingerprintOf j \<noteq> fp"
      using bound [of fp] count [of fp] one by (auto split: if_splits)
    then have "length (pendingJobs fp st) = 1"
      using count [of fp] one by simp
    then have "syncDeDuplicator st fp \<noteq> None" by (rule recorded)
    moreover have "syncDeDuplicator ?st' fp = syncDeDuplicator st fp"
      using ne fpj by (cases ty) (auto simp: removeSync_def setSyncQueue_def)
    ultimately show ?thesis by simp
  qed
  show ?thesis
    unfolding singlePending_def
    using manual' recurring' bound' recorded' by blast
qed

lemma processNextSyncJob_singlePending:
  assumes inv: "singlePending st"
  shows "singlePending (processNextSyncJob env ty start st)"
proof (cases "waiting (syncQueue ty st)")
  case Nil
  then show ?thesis using inv by (simp add: processNextSyncJob_def queue_take_def)
next
  case (Cons j js)
  define q where "q = (syncQueue ty st)\<lparr>waiting := js, active := active (syncQueue ty st) @ [j]\<rparr>"
  have take: "queue_take (syncQueue ty st) = Some (j, q)"
    using Cons by (simp add: queue_take_def q_def)
  have dd: "syncDeDuplicator (setSyncQueue ty x st) = syncDeDuplicator st" for x
    by (simp add: setSyncQueue_def)
  have "singlePending ((setSyncQueue ty q st)\<lparr>syncDeDuplicator :=
          removeSync (syncDeDuplicator (setSyncQueue ty q st)) ty
            (js_index (data_wallet (jobData j)) 0) (baseURL (jobData j))\<rparr>)"
    unfolding q_def dd by (rule taken_job_singlePending [OF inv Cons])
  then have run: "singlePending (snd (processSyncOperation env j ty start (setSyncQueue ty q st)))"
    by (rule processSyncOperation_singlePending)
  have finished: "singlePending (setSyncQueue ty (queue_done (syncQueue ty s) j) s) = singlePending s" for s
    by (rule singlePending_cong) (auto simp: setSyncQueue_def syncQueue_def queue_done_def)
  show ?thesis
    using run
    by (auto simp: processNextSyncJob_def take finished Let_def split: prod.splits sum.splits)
qed

theorem sequentialStep_singlePending:
  "singlePending st \<Longrightarrow> singlePending (sequentialStep env s st)"
  by (cases s)
     (simp_all add: enqueueSync_singlePending processNextSyncJob_singlePending
        issueUpdateReplicaSetOp_singlePending)

theorem sequentialRun_singlePending:
  "singlePending st \<Longrightarrow> singlePending (sequentialRun env steps st)"
  unfolding sequentialRun_def
  by (induction steps arbitrary: st) (simp_all add: sequentialStep_singlePending)

lemma singlePending_st0: "singlePending st0"
  by (simp add: singlePending_def pendingJobs_def st0_def)

text \<open>
  When no two calls overlap, the invariant holds at every step: starting from empty queues,
  whatever the calls and whatever the collaborators answer, at most one job is waiting for
  each fingerprint.
\<close>

lemma sequential_calls_one_pending:
  "length (pendingJobs fp (sequentialRun env steps st0)) \<le> 1"
  using sequentialRun_singlePending [OF singlePending_st0, of env steps]
  unfolding singlePending_def by blast

section \<open>Errors inside issueUpdateReplicaSetOp\<close>

text \<open>
  Claim C8 at two failures. When selecting the new nodes throws, and when the registry
  write throws, \<open>issueUpdateReplicaSetOp\<close> returns and the log holds nothing about the
  error: in the first case only the opening line, in the second also the line announcing
  the new replica set, which was never written.
\<close>

theorem reconfiguration_failure_not_logged:
  "fst (issueUpdateReplicaSetOp_try envSelectionFails 1 (Some ''0xA'') (Some ''self'') (Some ''s1'') (Some ''s2'')
          [Some ''s1''] (log (LogIssueUpdateReplicaSetOp 1 (Some ''0xA'') [Some ''s1'']) st0)) =
     Inl (Error ''no content node available'')
   \<and> logged (issueUpdateReplicaSetOp envSelectionFails 1 (Some ''0xA'') (Some ''self'') (Some ''s1'') (Some ''s2'')
          [Some ''s1''] st0) =
     [LogIssueUpdateReplicaSetOp 1 (Some ''0xA'') [Some ''s1'']]
   \<and> fst (issueUpdateReplicaSetOp_try envRegistryFails 1 (Some ''0xA'') (Some ''self'') (Some ''s1'') (Some ''s2'')
          [Some ''s1'', Some ''s2''] (log (LogIssueUpdateReplicaSetOp 1 (Some ''0xA'') [Some ''s1'', Some ''s2'']) st0)) =
     Inl (Error ''transaction reverted'')
   \<and> logged (issueUpdateReplicaSetOp envRegistryFails 1 (Some ''0xA'') (Some ''self'') (Some ''s1'') (Some ''s2'')
          [Some ''s1'', Some ''s2''] st0) =
     [LogIssueUpdateReplicaSetOp 1 (Some ''0xA'') [Some ''s1'', Some ''s2''],
      LogUpdatingReplicaSet 1 (Some ''0xA'') [Some ''self'', Some ''s1'', Some ''s2'']
        [Some ''self'', Some ''r0'', Some ''r1'']]
   \<and> registryWrites (issueUpdateReplicaSetOp envRegistryFails 1 (Some ''0xA'') (Some ''self'') (Some ''s1'') (Some ''s2'')
          [Some ''s1'', Some ''s2''] st0) = []"
  by (simp add: issueUpdateReplicaSetOp_def issueUpdateReplicaSetOp_try_def
        envSelectionFails_def envRegistryFails_def env0_def st0_def
        andThen_def seedSync_def enqueueSync_def enqueueSync_begin_def enqueueSync_end_def
        getDuplicateSyncJobInfo_def recordSync_def queue_add_def syncRequestParametersOf_def
        logReplicaSet_def writeReplicaSet_def updateReplicaSet_def js_index_def log_def Let_def)

section \<open>Monitoring a sync\<close>

lemma pollSchedule_times:
  "(t, a) \<in> set (pollSchedule env w secondaryUrl e now) \<Longrightarrow> now \<le> t \<and> t < e"
proof (induction env w secondaryUrl e now rule: pollSchedule.induct)
  case (1 env w secondaryUrl e now)
  show ?case
    using 1
    by (simp only: pollSchedule.simps [of env w secondaryUrl e now])
       (fastforce split: if_splits)
qed

lemma monitorSync_decision:
  "(\<not> fst (monitorSync env w P secondaryUrl e now)) =
   (\<exists>i<length (pollSchedule env w secondaryUrl e now). \<exists>S.
       snd (pollSchedule env w secondaryUrl e now ! i) = Inr S \<and>
       \<not> js_lt (js_plus S (maxExportClockValueRange env)) P \<and> js_ge S P \<and>
       (\<forall>j<i. \<forall>S'. snd (pollSchedule env w secondaryUrl e now ! j) = Inr S' \<longrightarrow>
           \<not> js_lt (js_plus S' (maxExportClockValueRange env)) P \<and> \<not> js_ge S' P))"
proof (induction env w P secondaryUrl e now rule: monitorSync.induct)
  case (1 env w P secondaryUrl e now)
  show ?case
  proof (cases "now < e")
    case False
    then show ?thesis
      by (simp add: monitorSync.simps [of env w P secondaryUrl e now]
            pollSchedule.simps [of env w secondaryUrl e now])
  next
    case True
    obtain a d where cs: "clockStatus env secondaryUrl w now = (a, d)" by (cases "clockStatus env secondaryUrl w now")
    let ?rest = "pollSchedule env w secondaryUrl e (now + d + SyncMonitoringRetryDelayMs)"
    have sched: "pollSchedule env w secondaryUrl e now = (now, a) # ?rest"
      using True cs by (simp add: pollSchedule.simps [of env w secondaryUrl e now])
    show ?thesis
    proof (cases a)
      case (Inl err)
      have m: "fst (monitorSync env w P secondaryUrl e now) =
               fst (monitorSync env w P secondaryUrl e (now + d + SyncMonitoringRetryDelayMs))"
        using True cs Inl by (simp add: monitorSync.simps [of env w P secondaryUrl e now] split: prod.splits)
      show ?thesis
        unfolding m sched "1.IH"(1) [OF True cs [symmetric] Inl]
        using Inl by (simp add: Ex_less_Suc2 All_less_Suc2)
    next
      case (Inr S0)
      show ?thesis
      proof (cases "js_lt (js_plus S0 (maxExportClockValueRange env)) P")
        case ex: True
        have m: "fst (monitorSync env w P secondaryUrl e now)"
          using True cs Inr ex by (simp add: monitorSync.simps [of env w P secondaryUrl e now])
        show ?thesis
          unfolding sched using m Inr ex by (auto simp: Ex_less_Suc2 All_less_Suc2)
      next
        case nex: False
        show ?thesis
        proof (cases "js_ge S0 P")
          case True
          have m: "\<not> fst (monitorSync env w P secondaryUrl e now)"
            using \<open>now < e\<close> cs Inr nex True by (simp add: monitorSync.simps [of env w P secondaryUrl e now])
          show ?thesis
            unfolding sched using m Inr nex True by (auto simp: Ex_less_Suc2 All_less_Suc2)
        next
          case False
          have m: "fst (monitorSync env w P secondaryUrl e now) =
               fst (monitorSync env w P secondaryUrl e (now + d + SyncMonitoringRetryDelayMs))"
            using \<open>now < e\<close> cs Inr nex False
            by (simp add: monitorSync.simps [of env w P secondaryUrl e now] split: prod.splits)
          show ?thesis
            unfolding m sched "1.IH"(2) [OF \<open>now < e\<close> cs [symmetric] Inr nex False]
            using Inr nex False by (simp add: Ex_less_Suc2 All_less_Suc2)
        qed
      qed
    qed
  qed
qed


lemma pollSchedule_Cons:
  assumes "i < length (pollSchedule env w secondaryUrl e now)"
  shows "now < e \<and>
         pollSchedule env w secondaryUrl e now =
           (now, fst (clockStatus env secondaryUrl w now)) #
           pollSchedule env w secondaryUrl e (now + snd (clockStatus env secondaryUrl w now) + SyncMonitoringRetryDelayMs)"
  using assms by (cases "now < e") (simp_all add: pollSchedule.simps [of env w secondaryUrl e now])

lemma pollSchedule_answers:
  "i < length (pollSchedule env w secondaryUrl e now) \<Longrightarrow>
   snd (pollSchedule env w secondaryUrl e now ! i) =
     fst (clockStatus env secondaryUrl w (fst (pollSchedule env w secondaryUrl e now ! i)))"
proof (induction i arbitrary: now)
  case 0
  show ?case using pollSchedule_Cons [OF "0.prems"] by simp
next
  case (Suc i)
  note c = pollSchedule_Cons [OF Suc.prems]
  let ?now' = "now + snd (clockStatus env secondaryUrl w now) + SyncMonitoringRetryDelayMs"
  have sched: "pollSchedule env w secondaryUrl e now =
      (now, fst (clockStatus env secondaryUrl w now)) # pollSchedule env w secondaryUrl e ?now'"
    using c by simp
  have 1: "i < length (pollSchedule env w secondaryUrl e ?now')"
    using Suc.prems sched by simp
  have nth: "pollSchedule env w secondaryUrl e now ! Suc i = pollSchedule env w secondaryUrl e ?now' ! i"
    using sched by simp
  show ?case unfolding nth using Suc.IH [OF 1] .
qed

lemma pollSchedule_first:
  "now < e \<Longrightarrow> pollSchedule env w secondaryUrl e now \<noteq> [] \<and>
                fst (pollSchedule env w secondaryUrl e now ! 0) = now"
  by (simp add: pollSchedule.simps [of env w secondaryUrl e now])

lemma pollSchedule_next:
  "Suc i < length (pollSchedule env w secondaryUrl e now) \<Longrightarrow>
   fst (pollSchedule env w secondaryUrl e now ! Suc i) =
     fst (pollSchedule env w secondaryUrl e now ! i) +
     snd (clockStatus env secondaryUrl w (fst (pollSchedule env w secondaryUrl e now ! i))) +
     SyncMonitoringRetryDelayMs"
proof (induction i arbitrary: now)
  case 0
  note c = pollSchedule_Cons [OF "0.prems"]
  let ?now' = "now + snd (clockStatus env secondaryUrl w now) + SyncMonitoringRetryDelayMs"
  have sched: "pollSchedule env w secondaryUrl e now =
      (now, fst (clockStatus env secondaryUrl w now)) # pollSchedule env w secondaryUrl e ?now'"
    using c by simp
  have 1: "0 < length (pollSchedule env w secondaryUrl e ?now')"
    using "0.prems" sched by simp
  have "fst (pollSchedule env w secondaryUrl e ?now' ! 0) = ?now'"
    using pollSchedule_Cons [OF 1] by simp
  then show ?case
    unfolding sched by simp
next
  case (Suc i)
  note c = pollSchedule_Cons [OF Suc.prems]
  let ?now' = "now + snd (clockStatus env secondaryUrl w now) + SyncMonitoringRetryDelayMs"
  have sched: "pollSchedule env w secondaryUrl e now =
      (now, fst (clockStatus env secondaryUrl w now)) # pollSchedule env w secondaryUrl e ?now'"
    using c by simp
  have 1: "Suc i < length (pollSchedule env w secondaryUrl e ?now')"
    using Suc.prems sched by simp
  have nth: "pollSchedule env w secondaryUrl e now ! Suc (Suc i) = pollSchedule env w secondaryUrl e ?now' ! Suc i"
       "pollSchedule env w secondaryUrl e now ! Suc i = pollSchedule env w secondaryUrl e ?now' ! i"
    using sched by simp_all
  show ?case unfolding nth using Suc.IH [OF 1] .
qed

lemma pollSchedule_last:
  "pollSchedule env w secondaryUrl e now \<noteq> [] \<Longrightarrow>
   e \<le> fst (last (pollSchedule env w secondaryUrl e now)) +
       snd (clockStatus env secondaryUrl w (fst (last (pollSchedule env w secondaryUrl e now)))) +
       SyncMonitoringRetryDelayMs"
proof (induction env w secondaryUrl e now rule: pollSchedule.induct)
  case (1 env w secondaryUrl e now)
  let ?now' = "now + snd (clockStatus env secondaryUrl w now) + SyncMonitoringRetryDelayMs"
  have lt: "now < e"
    using "1.prems" by (cases "now < e") (simp_all add: pollSchedule.simps [of env w secondaryUrl e now])
  have sched: "pollSchedule env w secondaryUrl e now =
      (now, fst (clockStatus env secondaryUrl w now)) # pollSchedule env w secondaryUrl e ?now'"
    using lt by (simp add: pollSchedule.simps [of env w secondaryUrl e now])
  show ?case
  proof (cases "pollSchedule env w secondaryUrl e ?now' = []")
    case True
    then have "\<not> ?now' < e"
      by (cases "?now' < e") (simp_all add: pollSchedule.simps [of env w secondaryUrl e ?now'])
    then show ?thesis unfolding sched using True by simp
  next
    case False
    show ?thesis unfolding sched using "1.IH" [OF lt False] False by simp
  qed
qed

lemma monitorSync_continues:
  assumes "now < e"
    and "\<forall>S. fst (clockStatus env secondaryUrl w now) = Inr S \<longrightarrow>
           \<not> js_lt (js_plus S (maxExportClockValueRange env)) P \<and> \<not> js_ge S P"
  shows "monitorSync env w P secondaryUrl e now =
           (fst (monitorSync env w P secondaryUrl e
                   (now + snd (clockStatus env secondaryUrl w now) + SyncMonitoringRetryDelayMs)),
            (case fst (clockStatus env secondaryUrl w now) of
               Inl err \<Rightarrow> LogMonitorError now err
             | Inr S \<Rightarrow> LogSecondaryClock now S) #
            snd (monitorSync env w P secondaryUrl e
                   (now + snd (clockStatus env secondaryUrl w now) + SyncMonitoringRetryDelayMs)))"
  using assms
  by (cases "clockStatus env secondaryUrl w now")
     (auto simp: monitorSync.simps [of env w P secondaryUrl e now] split: prod.splits sum.splits)

lemma monitorSync_stops:
  assumes "i < length (pollSchedule env w secondaryUrl e now)"
    and "snd (pollSchedule env w secondaryUrl e now ! i) = Inr S"
    and "js_lt (js_plus S (maxExportClockValueRange env)) P \<or> js_ge S P"
    and "\<forall>j<i. \<forall>S'. snd (pollSchedule env w secondaryUrl e now ! j) = Inr S' \<longrightarrow>
           \<not> js_lt (js_plus S' (maxExportClockValueRange env)) P \<and> \<not> js_ge S' P"
  shows "fst (monitorSync env w P secondaryUrl e now) = js_lt (js_plus S (maxExportClockValueRange env)) P
       \<and> length (snd (monitorSync env w P secondaryUrl e now)) = i + 2
       \<and> snd (monitorSync env w P secondaryUrl e now) ! i =
             LogSecondaryClock (fst (pollSchedule env w secondaryUrl e now ! i)) S
       \<and> snd (monitorSync env w P secondaryUrl e now) ! (i + 1) =
             (if js_lt (js_plus S (maxExportClockValueRange env)) P
              then LogRangeExceeded (fst (pollSchedule env w secondaryUrl e now ! i)) S
              else LogSyncCompleted (fst (pollSchedule env w secondaryUrl e now ! i)) S)"
  using assms
proof (induction i arbitrary: now)
  case 0
  note c = pollSchedule_Cons [OF "0.prems"(1)]
  have a: "fst (clockStatus env secondaryUrl w now) = Inr S"
    using "0.prems"(2) c by simp
  show ?case
    using c a "0.prems"(3)
    by (cases "clockStatus env secondaryUrl w now")
       (auto simp: monitorSync.simps [of env w P secondaryUrl e now])
next
  case (Suc i)
  note c = pollSchedule_Cons [OF Suc.prems(1)]
  let ?now' = "now + snd (clockStatus env secondaryUrl w now) + SyncMonitoringRetryDelayMs"
  have sched: "pollSchedule env w secondaryUrl e now =
      (now, fst (clockStatus env secondaryUrl w now)) # pollSchedule env w secondaryUrl e ?now'"
    using c by simp
  have nd: "\<forall>S. fst (clockStatus env secondaryUrl w now) = Inr S \<longrightarrow>
           \<not> js_lt (js_plus S (maxExportClockValueRange env)) P \<and> \<not> js_ge S P"
    using Suc.prems(4) sched by (auto simp: All_less_Suc2)
  have 1: "i < length (pollSchedule env w secondaryUrl e ?now')"
    using Suc.prems(1) sched by simp
  have 2: "snd (pollSchedule env w secondaryUrl e ?now' ! i) = Inr S"
    using Suc.prems(2) sched by simp
  have 4: "\<forall>j<i. \<forall>S'. snd (pollSchedule env w secondaryUrl e ?now' ! j) = Inr S' \<longrightarrow>
           \<not> js_lt (js_plus S' (maxExportClockValueRange env)) P \<and> \<not> js_ge S' P"
    using Suc.prems(4) sched by (auto simp: All_less_Suc2)
  note ih = Suc.IH [OF 1 2 Suc.prems(3) 4]
  have nth: "pollSchedule env w secondaryUrl e now ! Suc i = pollSchedule env w secondaryUrl e ?now' ! i"
    using sched by simp
  show ?case
    unfolding monitorSync_continues [OF conjunct1 [OF c] nd] nth
    using ih by simp
qed

lemma monitorSync_logs_undecided:
  assumes "i < length (pollSchedule env w secondaryUrl e now)"
    and "\<forall>j\<le>i. \<forall>S'. snd (pollSchedule env w secondaryUrl e now ! j) = Inr S' \<longrightarrow>
           \<not> js_lt (js_plus S' (maxExportClockValueRange env)) P \<and> \<not> js_ge S' P"
  shows "i < length (snd (monitorSync env w P secondaryUrl e now))
       \<and> snd (monitorSync env w P secondaryUrl e now) ! i =
           (case snd (pollSchedule env w secondaryUrl e now ! i) of
              Inl err \<Rightarrow> LogMonitorError (fst (pollSchedule env w secondaryUrl e now ! i)) err
            | Inr S \<Rightarrow> LogSecondaryClock (fst (pollSchedule env w secondaryUrl e now ! i)) S)"
  using assms
proof (induction i arbitrary: now)
  case 0
  note c = pollSchedule_Cons [OF "0.prems"(1)]
  have nd: "\<forall>S. fst (clockStatus env secondaryUrl w now) = Inr S \<longrightarrow>
           \<not> js_lt (js_plus S (maxExportClockValueRange env)) P \<and> \<not> js_ge S P"
    using "0.prems"(2) c by simp
  have nth0: "pollSchedule env w secondaryUrl e now ! 0 = (now, fst (clockStatus env secondaryUrl w now))"
    using c by simp
  show ?case
    unfolding monitorSync_continues [OF conjunct1 [OF c] nd] nth0
    by (simp split: sum.splits)
next
  case (Suc i)
  note c = pollSchedule_Cons [OF Suc.prems(1)]
  let ?now' = "now + snd (clockStatus env secondaryUrl w now) + SyncMonitoringRetryDelayMs"
  have sched: "pollSchedule env w secondaryUrl e now =
      (now, fst (clockStatus env secondaryUrl w now)) # pollSchedule env w secondaryUrl e ?now'"
    using c by simp
  have all: "\<And>j S'. j \<le> Suc i \<Longrightarrow> snd (pollSchedule env w secondaryUrl e now ! j) = Inr S' \<Longrightarrow>
           \<not> js_lt (js_plus S' (maxExportClockValueRange env)) P \<and> \<not> js_ge S' P"
    using Suc.prems(2) by blast
  have nd: "\<forall>S. fst (clockStatus env secondaryUrl w now) = Inr S \<longrightarrow>
           \<not> js_lt (js_plus S (maxExportClockValueRange env)) P \<and> \<not> js_ge S P"
    using all [of 0] sched by simp
  have 1: "i < length (pollSchedule env w secondaryUrl e ?now')"
    using Suc.prems(1) sched by simp
  have 2: "\<forall>j\<le>i. \<forall>S'. snd (pollSchedule env w secondaryUrl e ?now' ! j) = Inr S' \<longrightarrow>
           \<not> js_lt (js_plus S' (maxExportClockValueRange env)) P \<and> \<not> js_ge S' P"
  proof (intro allI impI)
    fix j S' assume "j \<le> i" and "snd (pollSchedule env w secondaryUrl e ?now' ! j) = Inr S'"
    then show "\<not> js_lt (js_plus S' (maxExportClockValueRange env)) P \<and> \<not> js_ge S' P"
      using all [of "Suc j" S'] sched by simp
  qed
  note ih = Suc.IH [OF 1 2]
  have nth: "pollSchedule env w secondaryUrl e now ! Suc i = pollSchedule env w secondaryUrl e ?now' ! i"
    using sched by simp
  show ?case
    unfolding monitorSync_continues [OF conjunct1 [OF c] nd] nth
    using ih by simp
qed

text \<open>
  Claim C5. Let \<open>polls\<close> be the answers of the secondary at the rounds before the deadline
  of six minutes, and call a clock sample \<open>S\<close> exceeded when
  \<open>S + maxExportClockValueRange < P\<close> and caught up when \<open>S \<ge> P\<close>; the range is assumed
  not to be negative, so no sample is both. The first sample that is one or the other
  decides and ends the monitoring: at an exceeded sample the answer is true (an additional
  sync is required), at a caught-up sample, \<open>S = P\<close> included, it is false, and in both
  cases the log ends with the line for that sample, so no later round is polled. The
  answer is false exactly when a caught-up sample comes before any exceeded one. If no
  sample before the deadline decides, the answer is true. An error answered by the
  secondary before a decision is logged at its round and the polling goes on. Every round
  starts at or after the call and less than 360000 ms after it. The rounds are those of
  the loop: the first at the time of the call, each next one when the answer of the one
  before has arrived and the retry delay of 15000 ms has passed, each answer being what
  \<open>clockStatus\<close> gives at the time of its round, and a round after the last would
  start at or after the deadline.
\<close>

theorem additionalSyncIsRequired_decision:
  assumes range: "0 \<le> maxExportClockValueRange env"
    and polls: "polls = pollSchedule env w secondaryUrl (start + MaxSyncMonitoringDurationInMs) start"
    and r: "r = additionalSyncIsRequired env w P secondaryUrl ty start"
  shows "((fst r = False) =
            (\<exists>i<length polls. \<exists>S. snd (polls ! i) = Inr S \<and> js_ge S P \<and>
               (\<forall>j<i. \<forall>S'. snd (polls ! j) = Inr S' \<longrightarrow>
                   \<not> js_lt (js_plus S' (maxExportClockValueRange env)) P \<and> \<not> js_ge S' P)))
       \<and> (\<forall>i<length polls. \<forall>S.
             snd (polls ! i) = Inr S \<and> js_lt (js_plus S (maxExportClockValueRange env)) P \<and>
             (\<forall>j<i. \<forall>S'. snd (polls ! j) = Inr S' \<longrightarrow>
                   \<not> js_lt (js_plus S' (maxExportClockValueRange env)) P \<and> \<not> js_ge S' P) \<longrightarrow>
             fst r = True \<and> length (snd r) = i + 2 \<and>
             snd r ! i = LogSecondaryClock (fst (polls ! i)) S \<and>
             snd r ! (i + 1) = LogRangeExceeded (fst (polls ! i)) S)
       \<and> (\<forall>i<length polls. \<forall>S.
             snd (polls ! i) = Inr S \<and> js_ge S P \<and>
             (\<forall>j<i. \<forall>S'. snd (polls ! j) = Inr S' \<longrightarrow>
                   \<not> js_lt (js_plus S' (maxExportClockValueRange env)) P \<and> \<not> js_ge S' P) \<longrightarrow>
             fst r = False \<and> length (snd r) = i + 2 \<and>
             snd r ! i = LogSecondaryClock (fst (polls ! i)) S \<and>
             snd r ! (i + 1) = LogSyncCompleted (fst (polls ! i)) S)
       \<and> ((\<forall>i<length polls. \<forall>S. snd (polls ! i) = Inr S \<longrightarrow>
                   \<not> js_lt (js_plus S (maxExportClockValueRange env)) P \<and> \<not> js_ge S P) \<longrightarrow>
             fst r = True)
       \<and> (\<forall>i<length polls. \<forall>err.
             snd (polls ! i) = Inl err \<and>
             (\<forall>j<i. \<forall>S'. snd (polls ! j) = Inr S' \<longrightarrow>
                   \<not> js_lt (js_plus S' (maxExportClockValueRange env)) P \<and> \<not> js_ge S' P) \<longrightarrow>
             i < length (snd r) \<and> snd r ! i = LogMonitorError (fst (polls ! i)) err)
       \<and> (\<forall>i<length polls. start \<le> fst (polls ! i) \<and> fst (polls ! i) < start + 360000)
       \<and> polls \<noteq> [] \<and> fst (polls ! 0) = start
       \<and> (\<forall>i<length polls. snd (polls ! i) = fst (clockStatus env secondaryUrl w (fst (polls ! i))))
       \<and> (\<forall>i. Suc i < length polls \<longrightarrow>
             fst (polls ! Suc i) =
               fst (polls ! i) + snd (clockStatus env secondaryUrl w (fst (polls ! i))) + 15000)
       \<and> start + 360000 \<le>
             fst (last polls) + snd (clockStatus env secondaryUrl w (fst (last polls))) + 15000"
proof -
  let ?e = "start + MaxSyncMonitoringDurationInMs"
  have r': "r = monitorSync env w P secondaryUrl ?e start"
    using r by (simp add: additionalSyncIsRequired_def)
  have ne: "js_ge S P \<Longrightarrow> \<not> js_lt (js_plus S (maxExportClockValueRange env)) P" for S
    using range by (auto simp: js_ge_def js_lt_def js_plus_def split: option.splits)
  have 1: "(fst r = False) =
            (\<exists>i<length polls. \<exists>S. snd (polls ! i) = Inr S \<and> js_ge S P \<and>
               (\<forall>j<i. \<forall>S'. snd (polls ! j) = Inr S' \<longrightarrow>
                   \<not> js_lt (js_plus S' (maxExportClockValueRange env)) P \<and> \<not> js_ge S' P))"
    using monitorSync_decision [of env w P secondaryUrl ?e start] ne
    unfolding r' polls by auto
  have 2: "\<forall>i<length polls. \<forall>S.
             snd (polls ! i) = Inr S \<and> js_lt (js_plus S (maxExportClockValueRange env)) P \<and>
             (\<forall>j<i. \<forall>S'. snd (polls ! j) = Inr S' \<longrightarrow>
                   \<not> js_lt (js_plus S' (maxExportClockValueRange env)) P \<and> \<not> js_ge S' P) \<longrightarrow>
             fst r = True \<and> length (snd r) = i + 2 \<and>
             snd r ! i = LogSecondaryClock (fst (polls ! i)) S \<and>
             snd r ! (i + 1) = LogRangeExceeded (fst (polls ! i)) S"
  proof (intro allI impI)
    fix i S
    assume i: "i < length polls"
      and h: "snd (polls ! i) = Inr S \<and> js_lt (js_plus S (maxExportClockValueRange env)) P \<and>
             (\<forall>j<i. \<forall>S'. snd (polls ! j) = Inr S' \<longrightarrow>
                   \<not> js_lt (js_plus S' (maxExportClockValueRange env)) P \<and> \<not> js_ge S' P)"
    show "fst r = True \<and> length (snd r) = i + 2 \<and>
             snd r ! i = LogSecondaryClock (fst (polls ! i)) S \<and>
             snd r ! (i + 1) = LogRangeExceeded (fst (polls ! i)) S"
      using monitorSync_stops [of i env w secondaryUrl ?e start S P] i h
      unfolding r' polls by simp
  qed
  have 3: "\<forall>i<length polls. \<forall>S.
             snd (polls ! i) = Inr S \<and> js_ge S P \<and>
             (\<forall>j<i. \<forall>S'. snd (polls ! j) = Inr S' \<longrightarrow>
                   \<not> js_lt (js_plus S' (maxExportClockValueRange env)) P \<and> \<not> js_ge S' P) \<longrightarrow>
             fst r = False \<and> length (snd r) = i + 2 \<and>
             snd r ! i = LogSecondaryClock (fst (polls ! i)) S \<and>
             snd r ! (i + 1) = LogSyncCompleted (fst (polls ! i)) S"
  proof (intro allI impI)
    fix i S
    assume i: "i < length polls"
      and h: "snd (polls ! i) = Inr S \<and> js_ge S P \<and>
             (\<forall>j<i. \<forall>S'. snd (polls ! j) = Inr S' \<longrightarrow>
                   \<not> js_lt (js_plus S' (maxExportClockValueRange env)) P \<and> \<not> js_ge S' P)"
    have n: "\<not> js_lt (js_plus S (maxExportClockValueRange env)) P" using h ne by blast
    show "fst r = False \<and> length (snd r) = i + 2 \<and>
             snd r ! i = LogSecondaryClock (fst (polls ! i)) S \<and>
             snd r ! (i + 1) = LogSyncCompleted (fst (polls ! i)) S"
      using monitorSync_stops [of i env w secondaryUrl ?e start S P] i h n
      unfolding r' polls by simp
  qed
  have 4: "(\<forall>i<length polls. \<forall>S. snd (polls ! i) = Inr S \<longrightarrow>
                   \<not> js_lt (js_plus S (maxExportClockValueRange env)) P \<and> \<not> js_ge S P) \<longrightarrow>
             fst r = True"
    using 1 by blast
  have 5: "\<forall>i<length polls. \<forall>err.
             snd (polls ! i) = Inl err \<and>
             (\<forall>j<i. \<forall>S'. snd (polls ! j) = Inr S' \<longrightarrow>
                   \<not> js_lt (js_plus S' (maxExportClockValueRange env)) P \<and> \<not> js_ge S' P) \<longrightarrow>
             i < length (snd r) \<and> snd r ! i = LogMonitorError (fst (polls ! i)) err"
  proof (intro allI impI)
    fix i err
    assume i: "i < length polls"
      and h: "snd (polls ! i) = Inl err \<and>
             (\<forall>j<i. \<forall>S'. snd (polls ! j) = Inr S' \<longrightarrow>
                   \<not> js_lt (js_plus S' (maxExportClockValueRange env)) P \<and> \<not> js_ge S' P)"
    have u: "\<forall>j\<le>i. \<forall>S'. snd (polls ! j) = Inr S' \<longrightarrow>
                   \<not> js_lt (js_plus S' (maxExportClockValueRange env)) P \<and> \<not> js_ge S' P"
    proof (intro allI impI)
      fix j S' assume "j \<le> i" and a: "snd (polls ! j) = Inr S'"
      then have "j < i" using h by (cases "j = i") auto
      then show "\<not> js_lt (js_plus S' (maxExportClockValueRange env)) P \<and> \<not> js_ge S' P"
        using h a by blast
    qed
    show "i < length (snd r) \<and> snd r ! i = LogMonitorError (fst (polls ! i)) err"
      using monitorSync_logs_undecided [of i env w secondaryUrl ?e start P] i u h
      unfolding r' polls by simp
  qed
  have 6: "\<forall>i<length polls. start \<le> fst (polls ! i) \<and> fst (polls ! i) < start + 360000"
  proof (intro allI impI)
    fix i assume i: "i < length polls"
    then have "polls ! i \<in> set polls" by simp
    then have "(fst (polls ! i), snd (polls ! i)) \<in> set (pollSchedule env w secondaryUrl ?e start)"
      using polls by simp
    then show "start \<le> fst (polls ! i) \<and> fst (polls ! i) < start + 360000"
      using pollSchedule_times by (fastforce simp: MaxSyncMonitoringDurationInMs_def)
  qed
  have lt: "start < ?e" by (simp add: MaxSyncMonitoringDurationInMs_def)
  have 7: "polls \<noteq> [] \<and> fst (polls ! 0) = start"
    unfolding polls using pollSchedule_first [OF lt] by simp
  have 8: "\<forall>i<length polls. snd (polls ! i) = fst (clockStatus env secondaryUrl w (fst (polls ! i)))"
    unfolding polls using pollSchedule_answers by blast
  have 9: "\<forall>i. Suc i < length polls \<longrightarrow>
             fst (polls ! Suc i) =
               fst (polls ! i) + snd (clockStatus env secondaryUrl w (fst (polls ! i))) + 15000"
    unfolding polls using pollSchedule_next [of _ env w secondaryUrl ?e start]
    by (simp add: SyncMonitoringRetryDelayMs_def)
  have 10: "start + 360000 \<le>
             fst (last polls) + snd (clockStatus env secondaryUrl w (fst (last polls))) + 15000"
    using pollSchedule_last [of env w secondaryUrl ?e start] 7
    unfolding polls by (simp add: SyncMonitoringRetryDelayMs_def MaxSyncMonitoringDurationInMs_def)
  show ?thesis
    apply (intro conjI)
    subgoal using 1 .
    subgoal using 2 .
    subgoal using 3 .
    subgoal using 4 .
    subgoal using 5 .
    subgoal using 6 .
    subgoal using 7 by simp
    subgoal using 7 by simp
    subgoal using 8 .
    subgoal using 9 .
    subgoal using 10 .
    done
qed

lemma envPoll_run:
  "additionalSyncIsRequired envPoll (Some ''0xA'') (Number 10) (Some ''s1'') Recurring 0 =
     (False, [LogSecondaryClock 0 (Number 5), LogMonitorError 15040 (Error ''ECONNRESET''),
              LogSecondaryClock 30040 (Number 10), LogSyncCompleted 30040 (Number 10)])"
  by (simp add: additionalSyncIsRequired_def monitorSync.simps envPoll_def env0_def
        MaxSyncMonitoringDurationInMs_def SyncMonitoringRetryDelayMs_def js_lt_def js_ge_def js_plus_def)

lemma envPollFarBehind_run:
  "additionalSyncIsRequired envPollFarBehind (Some ''0xA'') (Number 20000) (Some ''s1'') Recurring 0 =
     (True, [LogSecondaryClock 0 (Number 5), LogRangeExceeded 0 (Number 5)])"
  by (simp add: additionalSyncIsRequired_def monitorSync.simps envPollFarBehind_def env0_def
        MaxSyncMonitoringDurationInMs_def SyncMonitoringRetryDelayMs_def js_lt_def js_ge_def js_plus_def)

lemma envPollStuck_run:
  "fst (additionalSyncIsRequired envPollStuck (Some ''0xA'') (Number 20000) (Some ''s1'') Recurring 0) = True
   \<and> length (snd (additionalSyncIsRequired envPollStuck (Some ''0xA'') (Number 20000) (Some ''s1'') Recurring 0)) = 24"
  by (simp add: additionalSyncIsRequired_def monitorSync.simps envPollStuck_def env0_def
        MaxSyncMonitoringDurationInMs_def SyncMonitoringRetryDelayMs_def js_lt_def js_ge_def js_plus_def)

theorem additionalSyncIsRequired_decision_witness:
  "fst (additionalSyncIsRequired envPollFarBehind (Some ''0xA'') (Number 20000) (Some ''s1'') Recurring 0) = True
   \<and> length (snd (additionalSyncIsRequired envPollFarBehind (Some ''0xA'') (Number 20000) (Some ''s1'') Recurring 0)) = 2
   \<and> fst (additionalSyncIsRequired envPoll (Some ''0xA'') (Number 10) (Some ''s1'') Recurring 0) = False
   \<and> length (snd (additionalSyncIsRequired envPoll (Some ''0xA'') (Number 10) (Some ''s1'') Recurring 0)) = 4"
proof -
  have m1: "0 \<le> maxExportClockValueRange envPollFarBehind" by (simp add: envPollFarBehind_def env0_def)
  have m2: "0 \<le> maxExportClockValueRange envPoll" by (simp add: envPoll_def env0_def)
  note far = additionalSyncIsRequired_decision [OF m1 refl refl,
      where w = "Some ''0xA''" and secondaryUrl = "Some ''s1''" and start = 0 and P = "Number 20000" and ty = Recurring]
  note caught = additionalSyncIsRequired_decision [OF m2 refl refl,
      where w = "Some ''0xA''" and secondaryUrl = "Some ''s1''" and start = 0 and P = "Number 10" and ty = Recurring]
  have p0: "pollSchedule envPollFarBehind (Some ''0xA'') (Some ''s1'') (0 + MaxSyncMonitoringDurationInMs) 0 =
            (0, Inr (Number 5)) #
            pollSchedule envPollFarBehind (Some ''0xA'') (Some ''s1'') (0 + MaxSyncMonitoringDurationInMs) 15000"
    by (subst pollSchedule.simps)
       (simp add: envPollFarBehind_def env0_def MaxSyncMonitoringDurationInMs_def SyncMonitoringRetryDelayMs_def)
  have q: "pollSchedule envPoll (Some ''0xA'') (Some ''s1'') (0 + MaxSyncMonitoringDurationInMs) 0 =
            (0, Inr (Number 5)) # (15040, Inl (Error ''ECONNRESET'')) # (30040, Inr (Number 10)) #
            pollSchedule envPoll (Some ''0xA'') (Some ''s1'') (0 + MaxSyncMonitoringDurationInMs) 45065"
    by (subst pollSchedule.simps, subst pollSchedule.simps, subst pollSchedule.simps)
       (simp add: envPoll_def env0_def MaxSyncMonitoringDurationInMs_def SyncMonitoringRetryDelayMs_def)
  have i0: "0 < length (pollSchedule envPollFarBehind (Some ''0xA'') (Some ''s1'') (0 + MaxSyncMonitoringDurationInMs) 0)"
    and s0: "snd (pollSchedule envPollFarBehind (Some ''0xA'') (Some ''s1'') (0 + MaxSyncMonitoringDurationInMs) 0 ! 0) =
             Inr (Number 5)"
    unfolding p0 by simp_all
  have ex: "js_lt (js_plus (Number 5) (maxExportClockValueRange envPollFarBehind)) (Number 20000)"
    by (simp add: envPollFarBehind_def env0_def js_lt_def js_plus_def)
  have a: "fst (additionalSyncIsRequired envPollFarBehind (Some ''0xA'') (Number 20000) (Some ''s1'') Recurring 0) = True
        \<and> length (snd (additionalSyncIsRequired envPollFarBehind (Some ''0xA'') (Number 20000) (Some ''s1'') Recurring 0)) = 2"
    using far [THEN conjunct2, THEN conjunct1, rule_format, of 0 "Number 5"] i0 s0 ex
    by simp
  have i2: "2 < length (pollSchedule envPoll (Some ''0xA'') (Some ''s1'') (0 + MaxSyncMonitoringDurationInMs) 0)"
    and s2: "snd (pollSchedule envPoll (Some ''0xA'') (Some ''s1'') (0 + MaxSyncMonitoringDurationInMs) 0 ! 2) =
             Inr (Number 10)"
    and s1: "snd (pollSchedule envPoll (Some ''0xA'') (Some ''s1'') (0 + MaxSyncMonitoringDurationInMs) 0 ! 1) =
             Inl (Error ''ECONNRESET'')"
    and s0': "snd (pollSchedule envPoll (Some ''0xA'') (Some ''s1'') (0 + MaxSyncMonitoringDurationInMs) 0 ! 0) =
             Inr (Number 5)"
    unfolding q by simp_all
  have caughtUp: "js_ge (Number 10) (Number 10)" by (simp add: js_ge_def)
  have und: "\<not> js_lt (js_plus (Number 5) (maxExportClockValueRange envPoll)) (Number 10) \<and> \<not> js_ge (Number 5) (Number 10)"
    by (simp add: envPoll_def env0_def js_lt_def js_plus_def js_ge_def)
  have before: "\<forall>j<2. \<forall>S'. snd (pollSchedule envPoll (Some ''0xA'') (Some ''s1'') (0 + MaxSyncMonitoringDurationInMs) 0 ! j) = Inr S' \<longrightarrow>
                   \<not> js_lt (js_plus S' (maxExportClockValueRange envPoll)) (Number 10) \<and> \<not> js_ge S' (Number 10)"
  proof (intro allI impI)
    fix j S'
    assume "j < (2::nat)"
      and a: "snd (pollSchedule envPoll (Some ''0xA'') (Some ''s1'') (0 + MaxSyncMonitoringDurationInMs) 0 ! j) = Inr S'"
    then have "j = 0 \<or> j = 1" by auto
    then show "\<not> js_lt (js_plus S' (maxExportClockValueRange envPoll)) (Number 10) \<and> \<not> js_ge S' (Number 10)"
      using a s0' s1 und by auto
  qed
  have b: "fst (additionalSyncIsRequired envPoll (Some ''0xA'') (Number 10) (Some ''s1'') Recurring 0) = False
        \<and> length (snd (additionalSyncIsRequired envPoll (Some ''0xA'') (Number 10) (Some ''s1'') Recurring 0)) = 4"
    using caught [THEN conjunct2, THEN conjunct2, THEN conjunct1, rule_format, of 2 "Number 10"] i2 s2 caughtUp before
    by simp
  show ?thesis using a b by simp
qed

end
